theory Spec2Isabelle
  imports Complex_Main
begin

section \<open>Conventions of the embedding\<close>

text \<open>
  The TypeScript sources are embedded as follows.
  \<^item> A JavaScript \<open>number\<close> that carries a time in seconds is a \<^typ>\<open>real\<close>; \<open>NaN\<close> is
    the missing value of an \<open>option\<close>. Rounding of IEEE doubles is not modelled.
  \<^item> A JavaScript string is a \<^typ>\<open>string\<close>; one \<^typ>\<open>char\<close> stands for one code unit.
  \<^item> A rejected promise or a thrown \<open>Error(msg)\<close> is \<open>Inl msg\<close>, a resolved promise is
    \<open>Inr v\<close>.
  \<^item> What an external program (ffmpeg, ffprobe) or a remote service answers is an input of
    the model.
\<close>

type_synonym error = string

subsection \<open>Numbers inside template literals\<close>

function show_nat :: "nat \<Rightarrow> string" where
  "show_nat n =
     (if n < 10 then [''0123456789'' ! n]
      else show_nat (n div 10) @ [''0123456789'' ! (n mod 10)])"
  by pat_completeness auto
termination
  by (relation "measure id") auto

declare show_nat.simps [simp del]

definition show_int :: "int \<Rightarrow> string" where
  "show_int i = (if i < 0 then ''-'' @ show_nat (nat (- i)) else show_nat (nat i))"

subsection \<open>Whitespace and \<open>String.prototype.trim\<close>\<close>

definition isspace :: "char \<Rightarrow> bool" where
  \<comment> \<open>the class \<open>\s\<close>: tab, line feed, vertical tab, form feed, carriage return, space,
      no-break space (the members that fit in one \<^typ>\<open>char\<close>)\<close>
  "isspace c = (of_char c \<in> {9, 10, 11, 12, 13, 32, 160 :: nat})"

definition trim :: "string \<Rightarrow> string" where
  "trim s = rev (dropWhile isspace (rev (dropWhile isspace s)))"

section \<open>Duration probe: \<open>getAudioDuration\<close>\<close>

text \<open>
  \<open>getAudioDuration\<close> spawns ffprobe and listens for two events: \<open>close\<close>, with the exit
  code and the text collected from stdout, and \<open>error\<close>, when the process could not be
  started. \<open>parseFloat\<close> is a built-in of the language and is a parameter here; it answers
  \<open>None\<close> where JavaScript answers \<open>NaN\<close>.
\<close>

datatype probe_event = ProbeClose int string | ProbeError error

definition getAudioDuration :: "(string \<Rightarrow> real option) \<Rightarrow> probe_event \<Rightarrow> error + real" where
  "getAudioDuration parseFloat ev =
     (case ev of
        ProbeClose code output \<Rightarrow>
          if code = 0 then
            (case parseFloat (trim output) of
               Some duration \<Rightarrow> Inr duration
             | None \<Rightarrow> Inl ''Could not parse audio duration'')
          else Inl (''ffprobe failed with code '' @ show_int code)
      | ProbeError e \<Rightarrow> Inl e)"

section \<open>Caption timing in \<open>generateVideoContent\<close> (step 5)\<close>

record scriptSegment =
  seg_text :: string
  seg_duration :: real

record captionEntry =
  cap_text :: string
  startTime :: real
  endTime :: real

text \<open>
  The loop over \<open>i\<close> of step 5. \<open>probe i\<close> is what ffprobe answers for \<open>audioPaths[i]\<close>.
  \<open>audioDuration\<close> starts as the script duration and is overwritten when the probe
  resolves; a rejected probe is caught and only logged.
\<close>

fun captionLoop ::
  "(string \<Rightarrow> real option) \<Rightarrow> (nat \<Rightarrow> probe_event) \<Rightarrow> nat \<Rightarrow> real \<Rightarrow> scriptSegment list
     \<Rightarrow> captionEntry list" where
  "captionLoop parseFloat probe i currentStartTime [] = []"
| "captionLoop parseFloat probe i currentStartTime (seg # rest) =
     (let audioDuration =
            (case getAudioDuration parseFloat (probe i) of
               Inr measured \<Rightarrow> measured
             | Inl _ \<Rightarrow> seg_duration seg)
      in \<lparr>cap_text = seg_text seg, startTime = currentStartTime,
           endTime = currentStartTime + audioDuration\<rparr>
         # captionLoop parseFloat probe (Suc i) (currentStartTime + audioDuration) rest)"

definition subtitleData ::
  "bool \<Rightarrow> (string \<Rightarrow> real option) \<Rightarrow> (nat \<Rightarrow> probe_event) \<Rightarrow> scriptSegment list
     \<Rightarrow> captionEntry list option" where
  \<comment> \<open>\<open>null\<close> unless subtitles are switched on for the video and there is a segment\<close>
  "subtitleData subtitles parseFloat probe scriptSegments =
     (if subtitles \<and> scriptSegments \<noteq> [] then Some (captionLoop parseFloat probe 0 0 scriptSegments)
      else None)"

section \<open>Subtitle lines: \<open>createSubtitleSegments\<close>\<close>

text \<open>
  \<open>String.prototype.split\<close> with a one-character separator: the pieces between the
  separators, empty pieces included; the empty string gives one empty piece. The separator
  is given as a predicate, so that \<open>text.split(' ')\<close> is \<open>splitBy (\<lambda>c. c = CHR '' '')\<close>.
\<close>

fun splitBy :: "(char \<Rightarrow> bool) \<Rightarrow> string \<Rightarrow> string list" where
  "splitBy sep [] = [[]]"
| "splitBy sep (c # cs) =
     (if sep c then [] # splitBy sep cs
      else (case splitBy sep cs of
              w # ws \<Rightarrow> (c # w) # ws
            | [] \<Rightarrow> [[c]]))"

text \<open>
  The inner \<open>words.forEach\<close>: \<open>lines\<close> and \<open>currentLine\<close> are the two variables the loop
  updates. An empty string is falsy, which is the test \<open>currentLine \<noteq> []\<close>.
\<close>

fun wrapWords :: "string list \<Rightarrow> string list \<Rightarrow> string \<Rightarrow> string list \<times> string" where
  "wrapWords [] lines currentLine = (lines, currentLine)"
| "wrapWords (word # words) lines currentLine =
     (if length (currentLine @ '' '' @ word) \<le> 60
      then wrapWords words lines (if currentLine \<noteq> [] then currentLine @ '' '' @ word else word)
      else wrapWords words (if currentLine \<noteq> [] then lines @ [currentLine] else lines) word)"

definition wrapLines :: "string \<Rightarrow> string list" where
  "wrapLines text =
     (let words = splitBy (\<lambda>c. c = CHR '' '') text;
          (lines, currentLine) = wrapWords words [] []
      in if currentLine \<noteq> [] then lines @ [currentLine] else lines)"

text \<open>
  \<open>lines.forEach\<close>: one entry per line, \<open>currentTime\<close> advanced by \<open>lineDuration\<close> each time.
  The entries pushed and the new \<open>currentTime\<close> are returned.
\<close>

fun pushLines :: "real \<Rightarrow> real \<Rightarrow> string list \<Rightarrow> captionEntry list \<times> real" where
  "pushLines currentTime lineDuration [] = ([], currentTime)"
| "pushLines currentTime lineDuration (line # rest) =
     (let (more, t) = pushLines (currentTime + lineDuration) lineDuration rest
      in (\<lparr>cap_text = line, startTime = currentTime, endTime = currentTime + lineDuration\<rparr> # more, t))"

text \<open>
  The outer \<open>scriptSegments.forEach\<close>. For a segment without a line, \<open>lineDuration\<close> is
  \<open>duration / 0\<close>, which is \<open>Infinity\<close> or \<open>NaN\<close> in JavaScript and 0 here; no entry uses it.
\<close>

fun subtitleLoop :: "real \<Rightarrow> scriptSegment list \<Rightarrow> captionEntry list" where
  "subtitleLoop currentTime [] = []"
| "subtitleLoop currentTime (segment # rest) =
     (let lines = wrapLines (seg_text segment);
          lineDuration = seg_duration segment / real (length lines);
          (entries, t) = pushLines currentTime lineDuration lines
      in entries @ subtitleLoop t rest)"

definition createSubtitleSegments :: "scriptSegment list \<Rightarrow> real \<Rightarrow> captionEntry list" where
  "createSubtitleSegments scriptSegments startTime' = subtitleLoop startTime' scriptSegments"

section \<open>Caption text cleaning in \<open>createAdvancedVideo\<close>\<close>

definition isword :: "char \<Rightarrow> bool" where
  \<comment> \<open>the class \<open>\w\<close>: letters, digits and the underscore\<close>
  "isword c =
     (let n = (of_char c :: nat)
      in (48 \<le> n \<and> n \<le> 57) \<or> (65 \<le> n \<and> n \<le> 90) \<or> (97 \<le> n \<and> n \<le> 122) \<or> n = 95)"

definition allowed :: "char \<Rightarrow> bool" where
  \<comment> \<open>the complement of the class \<open>[^\w\s\.\!\?\-]\<close>\<close>
  "allowed c = (isword c \<or> isspace c \<or> c = CHR ''.'' \<or> c = CHR ''!'' \<or> c = CHR ''?'' \<or> c = CHR ''-'')"

definition isquote :: "char \<Rightarrow> bool" where
  \<comment> \<open>the class \<open>['"]\<close>\<close>
  "isquote c = (c = CHR 0x27 \<or> c = CHR 0x22)"

text \<open>\<open>replace(/\s+/g, ' ')\<close>: every maximal run of whitespace becomes one space.\<close>

function collapse :: "string \<Rightarrow> string" where
  "collapse [] = []"
| "collapse (c # cs) =
     (if isspace c then CHR '' '' # collapse (dropWhile isspace cs) else c # collapse cs)"
  by pat_completeness auto
termination
  by (relation "measure length") (auto simp: le_imp_less_Suc length_dropWhile_le)

text \<open>
  The chain of replacements that gives \<open>cleanText\<close> its first value, and the cut to 55
  characters that follows it.
\<close>

definition cleaned :: "string \<Rightarrow> string" where
  "cleaned input =
     (let noQuotes = filter (\<lambda>c. \<not> isquote c) input;
          onlyAllowed = map (\<lambda>c. if allowed c then c else CHR '' '') noQuotes
      in trim (collapse onlyAllowed))"

definition cleanText :: "string \<Rightarrow> string" where
  "cleanText input =
     (let cleanText = cleaned input
      in if length cleanText > 55 then take 52 cleanText @ ''...'' else cleanText)"



section \<open>External processes, files and promises\<close>

text \<open>
  The functions below spawn ffmpeg, read and write files and wait for remote services.
  They are embedded with explicit state passing.
  \<^item> \<open>world\<close> is what a job can change: the files on disk, the log of the processes it
    has spawned, the array \<open>tempFiles\<close> of \<open>generateVideoContent\<close>, and the stored row
    of the video. \<open>clock\<close> is the number of awaited external operations that still
    complete before the ten-minute timer of \<open>generateVideoContent\<close> fires; \<open>None\<close> when no
    timer is running.
  \<^item> \<open>env\<close> is what the outside answers: the exit of the \<open>k\<close>-th spawned ffmpeg, of the
    ffprobe run on clip \<open>i\<close>, the answers of the script, image, download and speech
    services for segment \<open>i\<close>, and the number-formatting built-ins of the language.
  \<^item> A promise is a function from the world to an outcome and a new world. \<open>Expired\<close> is
    the outcome of a promise that was still pending when the timer fired; a \<open>try\<close>/\<open>catch\<close>
    inside the job does not see it.
  An ffmpeg run that exits with code 0 leaves its output file (its last argument) on disk,
  non-empty; any other run leaves the files as they were. \<open>writeFileSync\<close> and \<open>unlink\<close>
  are taken to succeed (every call site of \<open>unlink\<close> ignores its failure).
\<close>

datatype proc_event = Close int string | SpawnError error
  \<comment> \<open>\<open>close\<close> with the exit code and the collected stderr; \<open>error\<close> with its message\<close>

datatype fileData = Text string | Media nat
  \<comment> \<open>a text file with its content; a media file with its size in bytes\<close>

fun fileSize :: "fileData \<Rightarrow> nat" where
  "fileSize (Text s) = length s"
| "fileSize (Media n) = n"

record videoRow =
  status :: string
  errorMessage :: "string option"
  script :: "string option"
  videoUrl :: "string option"
  r_images :: "string list"
  r_audioSegments :: "string list"
  r_subtitleData :: "captionEntry list option"

record world =
  files :: "string \<Rightarrow> fileData option"
  spawned :: "(string \<times> string list) list"
  clock :: "nat option"
  tempFiles :: "string list"
  stored :: videoRow

record env =
  parse_float :: "string \<Rightarrow> real option"
  num_to_string :: "real \<Rightarrow> string"
  to_fixed2 :: "real \<Rightarrow> string"
  ffmpeg_exit :: "nat \<Rightarrow> proc_event"
  ffprobe_exit :: "nat \<Rightarrow> probe_event"
  encoder_overruns :: bool
  script_answer :: "error + scriptSegment list"
  fallback_script :: "scriptSegment list"
  image_answer :: "nat \<Rightarrow> error + string"
  download_answer :: "nat \<Rightarrow> error + nat"
  speech_answer :: "nat \<Rightarrow> error + nat"
  revideo_answer :: "error option"

datatype 'a outcome = Resolved 'a | Rejected error | Expired

type_synonym 'a promise = "world \<Rightarrow> 'a outcome \<times> world"

definition resolve :: "'a \<Rightarrow> 'a promise" where
  "resolve x w = (Resolved x, w)"

definition reject :: "error \<Rightarrow> 'a promise" where
  "reject e w = (Rejected e, w)"

definition andThen :: "'a promise \<Rightarrow> ('a \<Rightarrow> 'b promise) \<Rightarrow> 'b promise" where
  \<comment> \<open>\<open>const x = await m; ...\<close>\<close>
  "andThen m f w =
     (case m w of
        (Resolved x, w') \<Rightarrow> f x w'
      | (Rejected e, w') \<Rightarrow> (Rejected e, w')
      | (Expired, w') \<Rightarrow> (Expired, w'))"

definition catchError :: "'a promise \<Rightarrow> (error \<Rightarrow> 'a promise) \<Rightarrow> 'a promise" where
  \<comment> \<open>\<open>try { await m } catch (error) { ... }\<close>\<close>
  "catchError m handler w =
     (case m w of
        (Resolved x, w') \<Rightarrow> (Resolved x, w')
      | (Rejected e, w') \<Rightarrow> handler e w'
      | (Expired, w') \<Rightarrow> (Expired, w'))"

definition pending :: "unit promise" where
  \<comment> \<open>waiting for something outside the process: the point where the timer can fire\<close>
  "pending w =
     (case clock w of
        None \<Rightarrow> (Resolved (), w)
      | Some 0 \<Rightarrow> (Expired, w)
      | Some (Suc k) \<Rightarrow> (Resolved (), w\<lparr>clock := Some k\<rparr>))"

fun pendingTimes :: "nat \<Rightarrow> unit promise" where
  "pendingTimes 0 = resolve ()"
| "pendingTimes (Suc n) = andThen pending (\<lambda>_. pendingTimes n)"

definition existsSync :: "string \<Rightarrow> world \<Rightarrow> bool" where
  "existsSync p w = (files w p \<noteq> None)"

definition writeFile :: "string \<Rightarrow> fileData \<Rightarrow> world \<Rightarrow> world" where
  "writeFile p d w = w\<lparr>files := (files w)(p \<mapsto> d)\<rparr>"

definition unlink :: "string \<Rightarrow> world \<Rightarrow> world" where
  "unlink p w = w\<lparr>files := (files w)(p := None)\<rparr>"

definition spawnFfmpeg :: "env \<Rightarrow> string list \<Rightarrow> proc_event promise" where
  "spawnFfmpeg env args w =
     (let ev = ffmpeg_exit env (length (spawned w));
          w1 = w\<lparr>spawned := spawned w @ [(''ffmpeg'', args)]\<rparr>
      in andThen pending
           (\<lambda>_ w2. (Resolved ev,
                     case ev of
                       Close code _ \<Rightarrow> if code = 0 then writeFile (last args) (Media 1) w2 else w2
                     | SpawnError _ \<Rightarrow> w2))
           w1)"

definition succeeded :: "proc_event \<Rightarrow> bool" where
  \<comment> \<open>the process closed with exit code 0\<close>
  "succeeded ev = (case ev of Close code _ \<Rightarrow> code = 0 | SpawnError _ \<Rightarrow> False)"

subsection \<open>Paths and strings\<close>

text \<open>
  \<open>path.join\<close> and \<open>path.dirname\<close> for paths that need no normalisation, \<open>Array.join\<close>, and
  \<open>String.includes\<close> (here \<open>includes_str\<close>).
\<close>

definition pathJoin :: "string \<Rightarrow> string \<Rightarrow> string" where
  "pathJoin dir name = dir @ ''/'' @ name"

definition dirname :: "string \<Rightarrow> string" where
  "dirname p =
     (if CHR ''/'' \<notin> set p then ''.''
      else let d = rev (tl (dropWhile (\<lambda>c. c \<noteq> CHR ''/'') (rev p)))
           in if d = [] then ''/'' else d)"

fun join :: "string \<Rightarrow> string list \<Rightarrow> string" where
  "join sep [] = []"
| "join sep [x] = x"
| "join sep (x # y # ys) = x @ sep @ join sep (y # ys)"

fun startsWith :: "string \<Rightarrow> string \<Rightarrow> bool" where
  "startsWith s [] = True"
| "startsWith [] (p # ps) = False"
| "startsWith (c # cs) (p # ps) = (c = p \<and> startsWith cs ps)"

fun includes_str :: "string \<Rightarrow> string \<Rightarrow> bool" where
  "includes_str [] sub = (sub = [])"
| "includes_str (c # cs) sub = (startsWith (c # cs) sub \<or> includes_str cs sub)"

definition orDefault :: "string option \<Rightarrow> string \<Rightarrow> string" where
  \<comment> \<open>\<open>x || d\<close> for an optional string: \<open>undefined\<close> and the empty string are falsy\<close>
  "orDefault x d = (case x of None \<Rightarrow> d | Some s \<Rightarrow> if s = [] then d else s)"

subsection \<open>Arguments of a render call\<close>

record videoAssets =
  a_images :: "string list"
  a_audioSegments :: "string list"
  a_scriptSegments :: "scriptSegment list option"

record subtitleOptions =
  s_segments :: "scriptSegment list"
  s_enabled :: bool

definition durationPerImage :: "real \<Rightarrow> nat \<Rightarrow> real" where
  \<comment> \<open>\<open>totalDuration / images.length\<close>; the callers have checked that there is an image\<close>
  "durationPerImage totalDuration n = totalDuration / real n"

definition imageInputs :: "string \<Rightarrow> string list \<Rightarrow> string list" where
  \<comment> \<open>\<open>-loop 1 -t <seconds> -i <image>\<close> for each image, in order\<close>
  "imageInputs seconds imagePaths =
     concat (map (\<lambda>imagePath. [''-loop'', ''1'', ''-t'', seconds, ''-i'', imagePath]) imagePaths)"

section \<open>The enhanced processor: \<open>enhancedVideoProcessor.ts\<close>\<close>

fun checkAudioFiles :: "string list \<Rightarrow> world \<Rightarrow> error option" where
  "checkAudioFiles [] w = None"
| "checkAudioFiles (audioPath # rest) w =
     (case files w audioPath of
        None \<Rightarrow> Some (''Audio file not found: '' @ audioPath)
      | Some d \<Rightarrow>
          if fileSize d = 0 then Some (''Audio file is empty: '' @ audioPath)
          else checkAudioFiles rest w)"

definition singleAudioArgs :: "string \<Rightarrow> string \<Rightarrow> string list" where
  "singleAudioArgs input outputPath =
     [''-y'', ''-i'', input, ''-c:a'', ''pcm_s16le'', ''-ar'', ''44100'',
      ''-af'', ''volume=0.8'', outputPath]"

definition listAudioArgs :: "string \<Rightarrow> string \<Rightarrow> string list" where
  "listAudioArgs listFilePath outputPath =
     [''-y'', ''-f'', ''concat'', ''-safe'', ''0'', ''-i'', listFilePath,
      ''-c:a'', ''pcm_s16le'', ''-ar'', ''44100'', ''-af'', ''volume=0.8'', outputPath]"

definition fileList :: "string list \<Rightarrow> string" where
  \<comment> \<open>one line \<open>file '<path>'\<close> per clip, joined by line feeds\<close>
  "fileList audioSegments =
     join [CHR 0x0A] (map (\<lambda>audioPath. ''file '' @ [CHR 0x27] @ audioPath @ [CHR 0x27]) audioSegments)"

definition processAudio_enhanced :: "env \<Rightarrow> string list \<Rightarrow> string \<Rightarrow> unit promise" where
  "processAudio_enhanced env audioSegments outputPath w =
     (case checkAudioFiles audioSegments w of
        Some e \<Rightarrow> (Rejected e, w)
      | None \<Rightarrow>
          if length audioSegments = 1 then
            andThen (spawnFfmpeg env (singleAudioArgs (audioSegments ! 0) outputPath))
              (\<lambda>ev. case ev of
                       Close code _ \<Rightarrow>
                         if code = 0 then resolve ()
                         else reject (''Single audio processing failed: '' @ show_int code)
                     | SpawnError e \<Rightarrow> reject e)
              w
          else
            (let listFilePath = pathJoin (dirname outputPath) ''audio_list.txt'';
                 w1 = writeFile listFilePath (Text (fileList audioSegments)) w
             in andThen (spawnFfmpeg env (listAudioArgs listFilePath outputPath))
                  (\<lambda>ev w2.
                     let w3 = unlink listFilePath w2
                     in case ev of
                          Close code _ \<Rightarrow>
                            if code = 0 then (Resolved (), w3)
                            else (Rejected (''Multi audio processing failed: '' @ show_int code), w3)
                        | SpawnError e \<Rightarrow> (Rejected e, w3))
                  w1))"

fun checkImageFiles :: "string list \<Rightarrow> world \<Rightarrow> error option" where
  "checkImageFiles [] w = None"
| "checkImageFiles (imagePath # rest) w =
     (if existsSync imagePath w then checkImageFiles rest w
      else Some (''Image file not found: '' @ imagePath))"

definition zoomFilter :: "string \<Rightarrow> nat \<Rightarrow> string" where
  \<comment> \<open>the filter chain of image \<open>index\<close>; input 0 is the audio\<close>
  "zoomFilter fadeOutStart index =
     ''['' @ show_nat (index + 1)
     @ '':v]scale=1920:1080:force_original_aspect_ratio=decrease,pad=1920:1080:(ow-iw)/2:(oh-ih)/2:color=black,zoompan=z='min(zoom+0.001,1.1)':x='iw/2-(iw/zoom/2)':y='ih/2-(ih/zoom/2)':d=125:s=1920x1080,format=yuv420p,fade=t=in:st=0:d=0.5,fade=t=out:st=''
     @ fadeOutStart @ '':d=0.5,setpts=PTS-STARTPTS[v'' @ show_nat index @ '']''"

definition fontPath :: string where
  "fontPath = ''/usr/share/fonts/truetype/dejavu/DejaVuSans-Bold.ttf''"

text \<open>
  The loop that builds one \<open>drawtext\<close> filter per subtitle segment. \<open>currentTime\<close> runs over
  the segments' durations; the text is cleaned by \<open>cleanText\<close>.
\<close>

fun textFilters :: "env \<Rightarrow> string \<Rightarrow> real \<Rightarrow> scriptSegment list \<Rightarrow> string list" where
  "textFilters env textColor currentTime [] = []"
| "textFilters env textColor currentTime (segment # rest) =
     (let startTime' = to_fixed2 env currentTime;
          endTime' = to_fixed2 env (currentTime + seg_duration segment)
      in (''drawtext=text='' @ [CHR 0x27] @ cleanText (seg_text segment) @ [CHR 0x27]
          @ '':fontfile='' @ fontPath @ '':fontsize=32:fontcolor='' @ textColor
          @ '':x=(w-text_w)/2:y=h-th-80:borderw=3:bordercolor=black:shadowcolor=black:shadowx=2:shadowy=2:enable='between(t,''
          @ startTime' @ '','' @ endTime' @ '')'' @ [CHR 0x27])
         # textFilters env textColor (currentTime + seg_duration segment) rest)"

definition encoderTail :: "string \<Rightarrow> string list" where
  "encoderTail outputPath =
     [''-c:v'', ''libx264'', ''-preset'', ''medium'', ''-crf'', ''20'', ''-pix_fmt'', ''yuv420p'',
      ''-c:a'', ''aac'', ''-b:a'', ''128k'', ''-shortest'', outputPath]"

definition advancedVideoArgs ::
  "env \<Rightarrow> string list \<Rightarrow> string \<Rightarrow> string \<Rightarrow> subtitleOptions option \<Rightarrow> string option \<Rightarrow> real
     \<Rightarrow> string list" where
  "advancedVideoArgs env imagePaths audioPath outputPath subtitles textColor totalDuration =
     (let perImage = durationPerImage totalDuration (length imagePaths);
          inputs = [''-y'', ''-i'', audioPath]
                   @ imageInputs (num_to_string env (perImage + 1)) imagePaths;
          videoFilters = join '';'' (map (zoomFilter (num_to_string env (perImage - 1 / 2)))
                                       [0 ..< length imagePaths]);
          concatInputs = concat (map (\<lambda>index. ''[v'' @ show_nat index @ '']'') [0 ..< length imagePaths]);
          filterComplex = videoFilters @ '';'' @ concatInputs @ ''concat=n=''
                          @ show_nat (length imagePaths) @ '':v=1:a=0[video]''
      in case subtitles of
           None \<Rightarrow>
             inputs @ [''-filter_complex'', filterComplex, ''-map'', ''[video]'', ''-map'', ''0:a'']
             @ encoderTail outputPath
         | Some subs \<Rightarrow>
             if s_enabled subs \<and> s_segments subs \<noteq> [] then
               inputs
               @ [''-filter_complex'',
                  filterComplex @ '';[video]''
                  @ join '','' (textFilters env (orDefault textColor ''yellow'') 0 (s_segments subs))
                  @ ''[final]'',
                  ''-map'', ''[final]'', ''-map'', ''0:a'']
               @ encoderTail outputPath
             else
               inputs @ [''-filter_complex'', filterComplex, ''-map'', ''[video]'', ''-map'', ''0:a'']
               @ encoderTail outputPath)"

definition createAdvancedVideo ::
  "env \<Rightarrow> string list \<Rightarrow> string \<Rightarrow> string \<Rightarrow> subtitleOptions option \<Rightarrow> string option \<Rightarrow> real
     \<Rightarrow> unit promise" where
  "createAdvancedVideo env imagePaths audioPath outputPath subtitles textColor totalDuration w =
     (case checkImageFiles imagePaths w of
        Some e \<Rightarrow> (Rejected e, w)
      | None \<Rightarrow>
          andThen
            (spawnFfmpeg env
               (advancedVideoArgs env imagePaths audioPath outputPath subtitles textColor totalDuration))
            (\<lambda>ev. case ev of
                     Close code _ \<Rightarrow>
                       if code = 0 then resolve ()
                       else reject (''Advanced video creation failed: '' @ show_int code)
                   | SpawnError e \<Rightarrow> reject e)
            w)"

definition createVideo_enhanced ::
  "env \<Rightarrow> videoAssets \<Rightarrow> string \<Rightarrow> real \<Rightarrow> subtitleOptions option \<Rightarrow> string option
     \<Rightarrow> string option \<Rightarrow> string option \<Rightarrow> string promise" where
  "createVideo_enhanced env assets outputPath totalDuration subtitles videoTopic textFont textColor =
     (if a_images assets = [] \<or> a_audioSegments assets = []
      then reject ''No assets provided for video creation''
      else
        (let audioPath = pathJoin (dirname outputPath) ''final_audio.wav''
         in andThen (processAudio_enhanced env (a_audioSegments assets) audioPath)
              (\<lambda>_. andThen
                      (createAdvancedVideo env (a_images assets) audioPath outputPath subtitles
                         textColor totalDuration)
                      (\<lambda>_. resolve outputPath))))"

section \<open>The basic processor: \<open>basicVideoProcessor.ts\<close>\<close>

definition normalizeArgs :: "string \<Rightarrow> string \<Rightarrow> string list" where
  "normalizeArgs inputPath outputPath =
     [''-y'', ''-i'', inputPath, ''-acodec'', ''pcm_s16le'', ''-ar'', ''44100'', ''-ac'', ''1'',
      outputPath]"

definition normalizeAudio :: "env \<Rightarrow> string \<Rightarrow> string \<Rightarrow> unit promise" where
  "normalizeAudio env inputPath outputPath =
     andThen (spawnFfmpeg env (normalizeArgs inputPath outputPath))
       (\<lambda>ev. case ev of
                Close code _ \<Rightarrow>
                  if code = 0 then resolve ()
                  else reject (''Audio normalization failed: '' @ show_int code)
              | SpawnError e \<Rightarrow> reject e)"

definition concatenateArgs :: "string list \<Rightarrow> string \<Rightarrow> string list" where
  "concatenateArgs audioPaths outputPath =
     [''-y''] @ concat (map (\<lambda>audioPath. [''-i'', audioPath]) audioPaths)
     @ [''-filter_complex'', ''concat=n='' @ show_nat (length audioPaths) @ '':v=0:a=1'',
        ''-acodec'', ''pcm_s16le'', ''-ar'', ''44100'', outputPath]"

definition concatenateAudio :: "env \<Rightarrow> string list \<Rightarrow> string \<Rightarrow> unit promise" where
  "concatenateAudio env audioPaths outputPath =
     andThen (spawnFfmpeg env (concatenateArgs audioPaths outputPath))
       (\<lambda>ev. case ev of
                Close code _ \<Rightarrow>
                  if code = 0 then resolve ()
                  else reject (''Audio concatenation failed: '' @ show_int code)
              | SpawnError e \<Rightarrow> reject e)"

definition normalizedPath :: "string \<Rightarrow> nat \<Rightarrow> string" where
  "normalizedPath outputDir i = pathJoin outputDir (''norm_'' @ show_nat i @ ''.wav'')"

text \<open>The loop over \<open>i\<close> that normalises clip \<open>i\<close> into \<open>norm_i.wav\<close>; it stops at the first failure.\<close>

fun normalizeLoop :: "env \<Rightarrow> string \<Rightarrow> nat \<Rightarrow> string list \<Rightarrow> string list promise" where
  "normalizeLoop env outputDir i [] = resolve []"
| "normalizeLoop env outputDir i (segment # rest) =
     andThen (normalizeAudio env segment (normalizedPath outputDir i))
       (\<lambda>_. andThen (normalizeLoop env outputDir (Suc i) rest)
               (\<lambda>normalized. resolve (normalizedPath outputDir i # normalized)))"

fun unlinkExisting :: "string list \<Rightarrow> world \<Rightarrow> world" where
  \<comment> \<open>\<open>if (fs.existsSync(file)) fs.unlinkSync(file)\<close> for each file\<close>
  "unlinkExisting [] w = w"
| "unlinkExisting (file # rest) w =
     unlinkExisting rest (if existsSync file w then unlink file w else w)"

definition processAudio_basic :: "env \<Rightarrow> string list \<Rightarrow> string \<Rightarrow> string promise" where
  "processAudio_basic env audioSegments outputDir =
     (let processedAudioPath = pathJoin outputDir ''processed_audio.wav''
      in andThen (normalizeLoop env outputDir 0 audioSegments)
           (\<lambda>normalizedAudio.
              andThen (concatenateAudio env normalizedAudio processedAudioPath)
                (\<lambda>_ w. (Resolved processedAudioPath, unlinkExisting normalizedAudio w))))"

definition getSimpleEffect :: "nat \<Rightarrow> string" where
  "getSimpleEffect index =
     [''scale=1.1*iw:1.1*ih'', ''scale=1920:1080'', ''scale=1.05*iw:1.05*ih''] ! (index mod 3)"

definition simpleFilter :: "nat \<Rightarrow> string" where
  "simpleFilter index =
     ''['' @ show_nat index
     @ '':v]scale=1920:1080:force_original_aspect_ratio=decrease,pad=1920:1080:(ow-iw)/2:(oh-ih)/2:color=black,format=yuv420p,''
     @ getSimpleEffect index @ '',setpts=PTS-STARTPTS[v'' @ show_nat index @ '']''"

definition safeText :: "string option \<Rightarrow> string" where
  \<comment> \<open>the title drawn by the basic processor: the topic, or \<open>Video\<close>, cleaned and cut to 30\<close>
  "safeText videoTopic =
     take 30
       (filter (\<lambda>c. isword c \<or> isspace c \<or> c = CHR ''.'' \<or> c = CHR '','' \<or> c = CHR ''!''
                      \<or> c = CHR ''?'' \<or> c = CHR ''-'')
          (filter (\<lambda>c. \<not> (isquote c \<or> c = CHR 0x5C \<or> c = CHR '':''))
             (orDefault videoTopic ''Video'')))"

definition basicVideoArgs ::
  "env \<Rightarrow> videoAssets \<Rightarrow> string \<Rightarrow> string \<Rightarrow> real \<Rightarrow> subtitleOptions option \<Rightarrow> string option
     \<Rightarrow> string option \<Rightarrow> string list" where
  "basicVideoArgs env assets outputPath audioPath totalDuration subtitles textColor videoTopic =
     (let n = length (a_images assets);
          perImage = durationPerImage totalDuration n;
          imageFilters = join '';'' (map simpleFilter [0 ..< n]);
          videoInputs = concat (map (\<lambda>index. ''[v'' @ show_nat index @ '']'') [0 ..< n]);
          filterComplex = imageFilters @ '';'' @ videoInputs @ ''concat=n='' @ show_nat n
                          @ '':v=1:a=0[video]'';
          overlay =
            (if (case subtitles of None \<Rightarrow> False | Some subs \<Rightarrow> s_enabled subs)
                \<and> (case a_scriptSegments assets of None \<Rightarrow> False | Some segs \<Rightarrow> segs \<noteq> [])
             then '';[video]drawtext=fontfile='' @ fontPath @ '':text='' @ [CHR 0x27]
                  @ safeText videoTopic @ [CHR 0x27] @ '':fontsize=60:fontcolor=''
                  @ orDefault textColor ''yellow''
                  @ '':x=(w-text_w)/2:y=100:shadowcolor=black@0.8:shadowx=2:shadowy=2[outv]''
             else '';[video]copy[outv]'')
      in [''-y''] @ imageInputs (num_to_string env (perImage + 1 / 2)) (a_images assets)
         @ [''-i'', audioPath,
            ''-filter_complex'', filterComplex @ overlay,
            ''-map'', ''[outv]'', ''-map'', show_nat n @ '':a'',
            ''-c:v'', ''libx264'', ''-preset'', ''medium'', ''-crf'', ''23'',
            ''-c:a'', ''aac'', ''-b:a'', ''128k'', ''-pix_fmt'', ''yuv420p'', ''-shortest'',
            outputPath])"

definition createBasicVideo ::
  "env \<Rightarrow> videoAssets \<Rightarrow> string \<Rightarrow> string \<Rightarrow> real \<Rightarrow> subtitleOptions option \<Rightarrow> string option
     \<Rightarrow> string option \<Rightarrow> unit promise" where
  "createBasicVideo env assets outputPath audioPath totalDuration subtitles textColor videoTopic =
     andThen
       (spawnFfmpeg env
          (basicVideoArgs env assets outputPath audioPath totalDuration subtitles textColor videoTopic))
       (\<lambda>ev. case ev of
                Close code _ \<Rightarrow>
                  if code = 0 then resolve ()
                  else reject (''Basic video creation failed: '' @ show_int code)
              | SpawnError e \<Rightarrow> reject e)"

definition createVideo_basic ::
  "env \<Rightarrow> videoAssets \<Rightarrow> string \<Rightarrow> real \<Rightarrow> subtitleOptions option \<Rightarrow> string option
     \<Rightarrow> string option \<Rightarrow> string option \<Rightarrow> string promise" where
  "createVideo_basic env assets outputPath totalDuration subtitles videoTopic textFont textColor =
     (if a_images assets = [] \<or> a_audioSegments assets = []
      then reject ''No assets provided for video creation''
      else
        andThen (processAudio_basic env (a_audioSegments assets) (dirname outputPath))
          (\<lambda>processedAudioPath.
             andThen
               (createBasicVideo env assets outputPath processedAudioPath totalDuration subtitles
                  textColor videoTopic)
               (\<lambda>_ w. (Resolved outputPath, unlinkExisting [processedAudioPath] w))))"

section \<open>The first processor: \<open>videoProcessor.ts\<close>\<close>

definition titlePageArgs :: "string \<Rightarrow> string \<Rightarrow> string list" where
  "titlePageArgs topic titlePagePath =
     (let cleanTopic = take 50 (filter (\<lambda>c. \<not> isquote c) topic)
      in [''-y'', ''-f'', ''lavfi'', ''-i'', ''color=c=0x1e3a8a:size=1920x1080:duration=0.1'',
          ''-filter_complex'',
          ''[0:v]drawtext=fontfile=/usr/share/fonts/truetype/dejavu/DejaVuSans-Bold.ttf:text=''
          @ [CHR 0x27] @ cleanTopic @ [CHR 0x27]
          @ '':fontsize=72:fontcolor=white:x=(w-text_w)/2:y=(h-text_h)/2-50:shadowcolor=black:shadowx=3:shadowy=3[title];[title]drawtext=fontfile=/usr/share/fonts/truetype/dejavu/DejaVuSans.ttf:text='Explainer Video':fontsize=36:fontcolor=0xe2e8f0:x=(w-text_w)/2:y=(h-text_h)/2+50+5*sin(t*2):shadowcolor=black:shadowx=2:shadowy=2:alpha='if(between(t,0.5,2),1,0)'[final]'',
          ''-map'', ''[final]'', ''-frames:v'', ''1'', ''-pix_fmt'', ''yuv420p'', titlePagePath])"

definition createTitlePage :: "env \<Rightarrow> string \<Rightarrow> string \<Rightarrow> string option promise" where
  \<comment> \<open>resolves with the path, or with \<open>null\<close> when ffmpeg fails; it never rejects\<close>
  "createTitlePage env topic outputDir =
     (let titlePagePath = pathJoin outputDir ''title_page.png''
      in andThen (spawnFfmpeg env (titlePageArgs topic titlePagePath))
           (\<lambda>ev. case ev of
                    Close code _ \<Rightarrow> if code = 0 then resolve (Some titlePagePath) else resolve None
                  | SpawnError e \<Rightarrow> resolve None))"

definition titleDuration :: "string option \<Rightarrow> real" where
  \<comment> \<open>two seconds are reserved for the title page when there is one\<close>
  "titleDuration titlePagePath = (if titlePagePath \<noteq> None then 2 else 0)"

definition contentDuration :: "string option \<Rightarrow> real \<Rightarrow> real" where
  "contentDuration titlePagePath totalDuration = totalDuration - titleDuration titlePagePath"

definition plainFilter :: "nat \<Rightarrow> nat \<Rightarrow> string" where
  "plainFilter imageStartIndex index =
     ''['' @ show_nat (imageStartIndex + index)
     @ '':v]scale=1920:1080:force_original_aspect_ratio=decrease,pad=1920:1080:(ow-iw)/2:(oh-ih)/2:color=black,format=yuv420p,setpts=PTS-STARTPTS[v''
     @ show_nat index @ '']''"

definition videoProcessorArgs ::
  "env \<Rightarrow> videoAssets \<Rightarrow> string \<Rightarrow> real \<Rightarrow> string option \<Rightarrow> string list" where
  "videoProcessorArgs env assets outputPath totalDuration titlePagePath =
     (let n = length (a_images assets);
          m = length (a_audioSegments assets);
          perImage = durationPerImage (contentDuration titlePagePath totalDuration) n;
          titleInput =
            (case titlePagePath of
               Some p \<Rightarrow> [''-loop'', ''1'', ''-t'', num_to_string env (titleDuration titlePagePath), ''-i'', p]
             | None \<Rightarrow> []);
          imageStartIndex = (if titlePagePath \<noteq> None then 1 else 0);
          titleFilter =
            (if titlePagePath \<noteq> None
             then ''[0:v]scale=1920:1080:force_original_aspect_ratio=decrease,pad=1920:1080:(ow-iw)/2:(oh-ih)/2:color=black,format=yuv420p,fade=in:0:30,setpts=PTS-STARTPTS[title];''
             else []);
          filterComplex = titleFilter @ join '';'' (map (plainFilter imageStartIndex) [0 ..< n]);
          videoInputs = (if titlePagePath \<noteq> None then [''[title]''] else [])
                        @ map (\<lambda>index. ''[v'' @ show_nat index @ '']'') [0 ..< n];
          concatFilter = concat videoInputs @ ''concat=n='' @ show_nat (length videoInputs)
                         @ '':v=1:a=0[outv]'';
          audioStartIndex = n + (if titlePagePath \<noteq> None then 1 else 0);
          audioInputs = concat (map (\<lambda>index. ''['' @ show_nat (audioStartIndex + index) @ '':a]'') [0 ..< m]);
          audioFilter =
            audioInputs @ ''concat=n='' @ show_nat m @ '':v=0:a=1[concatenated_audio]''
            @ (if titlePagePath \<noteq> None
               then '';aevalsrc=0:d='' @ num_to_string env (titleDuration titlePagePath)
                    @ ''[silence];[silence][concatenated_audio]concat=n=2:v=0:a=1[outa]''
               else '';[concatenated_audio]acopy[outa]'')
      in [''-y''] @ titleInput
         @ imageInputs (num_to_string env (perImage + 1 / 2)) (a_images assets)
         @ concat (map (\<lambda>audioPath. [''-i'', audioPath]) (a_audioSegments assets))
         @ [''-filter_complex'', filterComplex @ '';'' @ concatFilter @ '';'' @ audioFilter,
            ''-map'', ''[outv]'', ''-map'', ''[outa]'',
            ''-c:v'', ''libx264'', ''-preset'', ''medium'', ''-crf'', ''23'',
            ''-c:a'', ''aac'', ''-b:a'', ''128k'', ''-pix_fmt'', ''yuv420p'', outputPath])"

definition ffmpegFailure :: "int \<Rightarrow> string \<Rightarrow> error" where
  \<comment> \<open>the message chosen from what ffmpeg wrote to stderr\<close>
  "ffmpegFailure code errorOutput =
     (if includes_str errorOutput ''No such file or directory''
        then ''Video compilation failed: Missing input files''
      else if includes_str errorOutput ''Invalid data''
        then ''Video compilation failed: Corrupted audio or image data''
      else if includes_str errorOutput ''Permission denied''
        then ''Video compilation failed: File access permission error''
      else if includes_str errorOutput ''Disk full''
        then ''Video compilation failed: Insufficient disk space''
      else if includes_str errorOutput ''codec''
        then ''Video compilation failed: Audio/video encoding error''
      else ''FFmpeg process failed (exit code: '' @ show_int code @ '')'')"

text \<open>
  \<open>createVideo\<close> of \<open>videoProcessor.ts\<close>. It has a five-minute timer of its own:
  \<open>encoder_overruns\<close> says that ffmpeg is still running when that timer fires; the process
  is then killed, the promise is rejected, and the \<open>close\<close> handler that follows the kill
  removes the title page.
\<close>

definition createVideo_videoProcessor ::
  "env \<Rightarrow> videoAssets \<Rightarrow> string \<Rightarrow> real \<Rightarrow> subtitleOptions option \<Rightarrow> string option
     \<Rightarrow> string option \<Rightarrow> string option \<Rightarrow> string promise" where
  "createVideo_videoProcessor env assets outputPath totalDuration subtitles videoTopic textFont textColor =
     (if a_images assets = [] \<or> a_audioSegments assets = []
      then reject ''No assets provided for video creation''
      else
        andThen
          (case videoTopic of
             None \<Rightarrow> resolve None
           | Some topic \<Rightarrow>
               if topic = [] then resolve None
               else createTitlePage env topic (dirname outputPath))
          (\<lambda>titlePagePath w.
             let args = videoProcessorArgs env assets outputPath totalDuration titlePagePath;
                 cleanup = (\<lambda>w'. case titlePagePath of
                                     Some p \<Rightarrow> if existsSync p w' then unlink p w' else w'
                                   | None \<Rightarrow> w')
             in if encoder_overruns env
                then (case pending (w\<lparr>spawned := spawned w @ [(''ffmpeg'', args)]\<rparr>) of
                        (Resolved _, w') \<Rightarrow>
                          (Rejected ''Video creation timed out after 5 minutes'', cleanup w')
                      | (Rejected e, w') \<Rightarrow> (Rejected e, w')
                      | (Expired, w') \<Rightarrow> (Expired, w'))
                else
                  andThen (spawnFfmpeg env args)
                    (\<lambda>ev w'.
                       case ev of
                         Close code errorOutput \<Rightarrow>
                           if code = 0 then (Resolved outputPath, cleanup w')
                           else (Rejected (ffmpegFailure code errorOutput), cleanup w')
                       | SpawnError e \<Rightarrow> (Rejected (''Failed to start FFmpeg: '' @ e), cleanup w'))
                    w))"

fun cleanupTempFiles :: "string list \<Rightarrow> world \<Rightarrow> world" where
  \<comment> \<open>\<open>fs.unlink\<close> on every path, errors ignored\<close>
  "cleanupTempFiles [] w = w"
| "cleanupTempFiles (filePath # rest) w = cleanupTempFiles rest (unlink filePath w)"

section \<open>The Revideo backend and its fallback: \<open>createVideoWithRevideo.ts\<close>\<close>

definition segmentListArgs :: "string \<Rightarrow> string \<Rightarrow> string list" where
  "segmentListArgs fileListPath outputPath =
     [''-y'', ''-f'', ''concat'', ''-safe'', ''0'', ''-i'', fileListPath,
      ''-c:a'', ''pcm_s16le'', ''-ar'', ''44100'', ''-ac'', ''1'', outputPath]"

definition concatenateAudioSegments :: "env \<Rightarrow> string list \<Rightarrow> string \<Rightarrow> string promise" where
  "concatenateAudioSegments env audioSegments outputDir w =
     (let outputPath = pathJoin outputDir ''final_audio.wav'';
          fileListPath = pathJoin outputDir ''audio_files.txt'';
          w1 = writeFile fileListPath (Text (fileList audioSegments)) w
      in andThen (spawnFfmpeg env (segmentListArgs fileListPath outputPath))
           (\<lambda>ev w2.
              case ev of
                Close code _ \<Rightarrow>
                  (let w3 = (if existsSync fileListPath w2 then unlink fileListPath w2 else w2)
                   in if code = 0 then (Resolved outputPath, w3)
                      else (Rejected (''Audio concatenation failed with code '' @ show_int code), w3))
              | SpawnError e \<Rightarrow> (Rejected e, w2))
           w1)"

text \<open>
  \<open>renderVideoWithRevideo\<close> drives a third-party renderer in a headless browser. Its answer
  is an input: \<open>None\<close> when it rendered the file, \<open>Some e\<close> when it threw \<open>e\<close> (a missing
  browser included). The project files it writes are not modelled.
\<close>

definition renderVideoWithRevideo :: "env \<Rightarrow> string \<Rightarrow> unit promise" where
  "renderVideoWithRevideo env outputPath =
     andThen pending
       (\<lambda>_ w. case revideo_answer env of
                 None \<Rightarrow> (Resolved (), writeFile outputPath (Media 1) w)
               | Some e \<Rightarrow> (Rejected e, w))"

definition revideoAttempt :: "env \<Rightarrow> videoAssets \<Rightarrow> string \<Rightarrow> unit promise" where
  \<comment> \<open>the body of the \<open>try\<close> block: concatenate the narration, then render with Revideo\<close>
  "revideoAttempt env assets outputPath =
     andThen (concatenateAudioSegments env (a_audioSegments assets) (dirname outputPath))
       (\<lambda>audioPath. renderVideoWithRevideo env outputPath)"

definition createVideoWithRevideo ::
  "env \<Rightarrow> videoAssets \<Rightarrow> string \<Rightarrow> real \<Rightarrow> subtitleOptions \<Rightarrow> string \<Rightarrow> string option
     \<Rightarrow> string option \<Rightarrow> unit promise" where
  "createVideoWithRevideo env assets outputPath totalAudioDuration subtitleData' topic textFont textColor =
     catchError (revideoAttempt env assets outputPath)
       (\<lambda>error.
          andThen
            (createVideo_enhanced env assets outputPath totalAudioDuration (Some subtitleData')
               (Some topic) textFont textColor)
            (\<lambda>_. resolve ()))"

section \<open>The job: \<open>generateVideoContent\<close>\<close>

record video =
  v_duration :: real
  v_subtitles :: bool

text \<open>
  Of the video's row only the duration and the subtitle switch decide what the job does;
  the topic, the language and the styles are passed on to the services, whose answers are
  inputs here.
\<close>

definition updateVideo :: "(videoRow \<Rightarrow> videoRow) \<Rightarrow> unit promise" where
  "updateVideo change w = (Resolved (), w\<lparr>stored := change (stored w)\<rparr>)"

definition generateScriptStep :: "env \<Rightarrow> scriptSegment list promise" where
  "generateScriptStep env =
     andThen pending
       (\<lambda>_. case script_answer env of
               Inr scriptSegments \<Rightarrow> resolve scriptSegments
             | Inl message \<Rightarrow>
                 if includes_str message ''quota'' then resolve (fallback_script env)
                 else reject message)"

definition imagePathOf :: "string \<Rightarrow> string \<Rightarrow> nat \<Rightarrow> string" where
  "imagePathOf tempDir videoId i = pathJoin tempDir (''image-'' @ videoId @ ''-'' @ show_nat i @ ''.jpg'')"

definition audioPathOf :: "string \<Rightarrow> string \<Rightarrow> nat \<Rightarrow> string" where
  "audioPathOf tempDir videoId i = pathJoin tempDir (''audio-'' @ videoId @ ''-'' @ show_nat i @ ''.mp3'')"

text \<open>
  Step 2: for segment \<open>i\<close>, the image is generated, downloaded to \<open>image-<id>-<i>.jpg\<close> and
  the path is pushed to \<open>imagePaths\<close> and to \<open>tempFiles\<close>. A failed download leaves no file.
\<close>

fun imagesLoop :: "env \<Rightarrow> string \<Rightarrow> string \<Rightarrow> nat \<Rightarrow> scriptSegment list \<Rightarrow> string list promise" where
  "imagesLoop env tempDir videoId i [] = resolve []"
| "imagesLoop env tempDir videoId i (segment # rest) =
     andThen pending
       (\<lambda>_. case image_answer env i of
               Inl e \<Rightarrow> reject e
             | Inr imageUrl \<Rightarrow>
                 andThen pending
                   (\<lambda>_. case download_answer env i of
                           Inl e \<Rightarrow> reject e
                         | Inr size' \<Rightarrow>
                             (\<lambda>w. andThen (imagesLoop env tempDir videoId (Suc i) rest)
                                     (\<lambda>imagePaths. resolve (imagePathOf tempDir videoId i # imagePaths))
                                     ((writeFile (imagePathOf tempDir videoId i) (Media size') w)
                                        \<lparr>tempFiles := tempFiles w @ [imagePathOf tempDir videoId i]\<rparr>))))"

text \<open>Step 3: the narration of segment \<open>i\<close> is written to \<open>audio-<id>-<i>.mp3\<close>.\<close>

fun audioLoop :: "env \<Rightarrow> string \<Rightarrow> string \<Rightarrow> nat \<Rightarrow> scriptSegment list \<Rightarrow> string list promise" where
  "audioLoop env tempDir videoId i [] = resolve []"
| "audioLoop env tempDir videoId i (segment # rest) =
     andThen pending
       (\<lambda>_. case speech_answer env i of
               Inl e \<Rightarrow> reject e
             | Inr size' \<Rightarrow>
                 (\<lambda>w. andThen (audioLoop env tempDir videoId (Suc i) rest)
                         (\<lambda>audioPaths. resolve (audioPathOf tempDir videoId i # audioPaths))
                         ((writeFile (audioPathOf tempDir videoId i) (Media size') w)
                            \<lparr>tempFiles := tempFiles w @ [audioPathOf tempDir videoId i]\<rparr>)))"

definition subtitleStep :: "env \<Rightarrow> bool \<Rightarrow> scriptSegment list \<Rightarrow> captionEntry list option promise" where
  \<comment> \<open>step 5: one awaited ffprobe run per segment, then the caption list\<close>
  "subtitleStep env subtitles scriptSegments =
     andThen (pendingTimes (if subtitles then length scriptSegments else 0))
       (\<lambda>_. resolve (subtitleData subtitles (parse_float env) (ffprobe_exit env) scriptSegments))"

definition generationPromise :: "env \<Rightarrow> video \<Rightarrow> string \<Rightarrow> string \<Rightarrow> unit promise" where
  "generationPromise env video' videoId tempDir =
     andThen (generateScriptStep env) (\<lambda>scriptSegments.
     andThen pending (\<lambda>_.
     andThen (updateVideo (\<lambda>row. row\<lparr>script := Some (join '' '' (map seg_text scriptSegments))\<rparr>)) (\<lambda>_.
     andThen (imagesLoop env tempDir videoId 0 scriptSegments) (\<lambda>imagePaths.
     andThen (audioLoop env tempDir videoId 0 scriptSegments) (\<lambda>audioPaths.
     andThen
       (createVideo_enhanced env
          \<lparr>a_images = imagePaths, a_audioSegments = audioPaths, a_scriptSegments = None\<rparr>
          (pathJoin tempDir (''video-'' @ videoId @ ''.mp4''))
          (v_duration video')
          (if v_subtitles video' then Some \<lparr>s_segments = scriptSegments, s_enabled = True\<rparr> else None)
          None None None) (\<lambda>_.
     andThen (subtitleStep env (v_subtitles video') scriptSegments) (\<lambda>captions.
     andThen pending (\<lambda>_.
       updateVideo (\<lambda>row. row\<lparr>status := ''completed'',
                              videoUrl := Some (pathJoin tempDir (''video-'' @ videoId @ ''.mp4'')),
                              r_images := imagePaths, r_audioSegments := audioPaths,
                              r_subtitleData := captions\<rparr>)))))))))"

definition failJob :: "error \<Rightarrow> world \<Rightarrow> world" where
  \<comment> \<open>the outer \<open>catch\<close>: the row is marked failed, then the temporary files are removed\<close>
  "failJob errorMessage' w =
     cleanupTempFiles (tempFiles w)
       (w\<lparr>stored := (stored w)\<lparr>status := ''failed'', errorMessage := Some errorMessage'\<rparr>\<rparr>)"

definition generateVideoContent ::
  "env \<Rightarrow> video option \<Rightarrow> string \<Rightarrow> string \<Rightarrow> world \<Rightarrow> (error + unit) \<times> world" where
  "generateVideoContent env found videoId tempDir w =
     (case found of
        None \<Rightarrow> (Inl ''Video not found'', w)
      | Some video' \<Rightarrow>
          (case generationPromise env video' videoId tempDir (w\<lparr>tempFiles := []\<rparr>) of
             (Resolved _, w') \<Rightarrow> (Inr (), w')
           | (Rejected e, w') \<Rightarrow> (Inl e, failJob e w')
           | (Expired, w') \<Rightarrow>
               (Inl ''Video generation timed out after 10 minutes'',
                failJob ''Video generation timed out after 10 minutes'' w')))"

section \<open>Sample inputs\<close>

text \<open>
  An environment in which every service answers and every process exits with code 0, for
  a script of one ten-second segment whose narration measures 9.2 seconds; and a world
  with no file, no process and no timer.
\<close>

definition sampleEnv :: env where
  "sampleEnv =
     \<lparr>parse_float = (\<lambda>s. if s = ''9.2'' then Some (46 / 5) else None),
      num_to_string = (\<lambda>r. if r = 11 then ''11'' else if r = 19 / 2 then ''9.5''
                             else if r = 2 then ''2'' else if r = 59 / 6 then ''9.833333333333334''
                             else ''?''),
      to_fixed2 = (\<lambda>r. if r = 0 then ''0.00'' else if r = 10 then ''10.00'' else ''?''),
      ffmpeg_exit = (\<lambda>k. Close 0 []),
      ffprobe_exit = (\<lambda>i. ProbeClose 0 ''9.2''),
      encoder_overruns = False,
      script_answer = Inr [\<lparr>seg_text = ''Hello world'', seg_duration = 10\<rparr>],
      fallback_script = [],
      image_answer = (\<lambda>i. Inr ''https://images.example/0''),
      download_answer = (\<lambda>i. Inr 2048),
      speech_answer = (\<lambda>i. Inr 4096),
      revideo_answer = None\<rparr>"

definition freshWorld :: world where
  "freshWorld =
     \<lparr>files = Map.empty, spawned = [], clock = None, tempFiles = [],
      stored = \<lparr>status = ''generating'', errorMessage = None, script = None, videoUrl = None,
                r_images = [], r_audioSegments = [], r_subtitleData = None\<rparr>\<rparr>"

definition sampleVideo :: video where
  "sampleVideo = \<lparr>v_duration = 10, v_subtitles = True\<rparr>"
section \<open>Properties of the caption timing\<close>

lemma captionLoop_length:
  "length (captionLoop pf probe i t segs) = length segs"
  by (induction segs arbitrary: i t) (simp_all add: Let_def)

lemma captionLoop_measured:
  assumes "length ds = length segs"
    and "\<forall>k < length segs. getAudioDuration pf (probe (i + k)) = Inr (ds ! k)"
  shows "captionLoop pf probe i t segs =
           map (\<lambda>k. \<lparr>cap_text = seg_text (segs ! k),
                      startTime = t + sum_list (take k ds),
                      endTime = t + sum_list (take (Suc k) ds)\<rparr>) [0 ..< length segs]"
  using assms
proof (induction segs arbitrary: i t ds)
  case Nil
  then show ?case by simp
next
  case (Cons seg rest)
  then obtain d ds' where ds: "ds = d # ds'" by (cases ds) auto
  from Cons.prems(2) have here: "getAudioDuration pf (probe i) = Inr d"
    using ds by force
  have len: "length ds' = length rest" using Cons.prems(1) ds by simp
  have later: "\<forall>k < length rest. getAudioDuration pf (probe (Suc i + k)) = Inr (ds' ! k)"
  proof (intro allI impI)
    fix k assume "k < length rest"
    then have "getAudioDuration pf (probe (i + Suc k)) = Inr (ds ! Suc k)"
      using Cons.prems(2) by (metis Suc_less_eq length_Cons)
    then show "getAudioDuration pf (probe (Suc i + k)) = Inr (ds' ! k)"
      using ds by simp
  qed
  have ih: "captionLoop pf probe (Suc i) (t + d) rest =
      map (\<lambda>k. \<lparr>cap_text = seg_text (rest ! k),
                 startTime = t + d + sum_list (take k ds'),
                 endTime = t + d + sum_list (take (Suc k) ds')\<rparr>) [0 ..< length rest]"
    using Cons.IH [OF len later] .
  have shift: "[0 ..< length (seg # rest)] = 0 # map Suc [0 ..< length rest]"
    by (simp add: upt_conv_Cons map_Suc_upt del: upt_Suc)
  show ?case
    unfolding shift
    by (simp add: here ih ds Let_def add.assoc del: upt_Suc)
qed

text \<open>
  C2. Caption contiguity. When every clip's probe resolves, with the measured durations
  \<open>ds\<close>, the caption list built by step 5 of \<open>generateVideoContent\<close> for \<open>N \<ge> 1\<close> segments
  has \<open>N\<close> entries, in segment order; the first starts at 0, each entry ends where the next
  one starts, and the last entry ends at the sum of the measured durations.
\<close>

theorem caption_contiguity:
  assumes "length ds = length segs" and "segs \<noteq> []"
    and "\<forall>k < length segs. getAudioDuration pf (probe k) = Inr (ds ! k)"
  shows "\<exists>entries. subtitleData True pf probe segs = Some entries
           \<and> length entries = length segs
           \<and> map cap_text entries = map seg_text segs
           \<and> startTime (entries ! 0) = 0
           \<and> (\<forall>i. Suc i < length entries \<longrightarrow> endTime (entries ! i) = startTime (entries ! Suc i))
           \<and> endTime (last entries) = sum_list ds
           \<and> \<bar>endTime (last entries) - sum_list ds\<bar> \<le> 1 / 10 ^ 6"
proof -
  let ?n = "length segs"
  let ?entries = "captionLoop pf probe 0 0 segs"
  have shape: "?entries =
      map (\<lambda>k. \<lparr>cap_text = seg_text (segs ! k),
                 startTime = 0 + sum_list (take k ds),
                 endTime = 0 + sum_list (take (Suc k) ds)\<rparr>) [0 ..< ?n]"
    using captionLoop_measured [of ds segs pf probe 0 0] assms(1,3) by simp
  have n: "0 < ?n" using assms(2) by simp
  have len: "length ?entries = ?n" by (rule captionLoop_length)
  have texts: "map cap_text ?entries = map seg_text segs"
  proof -
    have "map seg_text (map ((!) segs) [0 ..< ?n]) = map seg_text segs"
      by (simp only: map_nth)
    then show ?thesis unfolding shape by (simp add: comp_def del: upt_Suc)
  qed
  have first: "startTime (?entries ! 0) = 0"
    unfolding shape using n by (simp del: upt_Suc)
  have contiguous:
    "\<forall>i. Suc i < length ?entries \<longrightarrow> endTime (?entries ! i) = startTime (?entries ! Suc i)"
    unfolding shape by (simp del: upt_Suc)
  have "last ?entries = ?entries ! (?n - 1)"
    using len n by (metis last_conv_nth length_0_conv less_numeral_extra(3))
  then have final: "endTime (last ?entries) = sum_list ds"
    unfolding shape using n assms(1) by (simp del: upt_Suc)
  show ?thesis
    using len texts first contiguous final assms(2) by (simp add: subtitleData_def)
qed

text \<open>
  The theorem at three segments planned for 10 seconds each whose clips measure 9.2, 11
  and 9.8 seconds: the captions run over \<open>[0, 9.2)\<close>, \<open>[9.2, 20.2)\<close> and \<open>[20.2, 30)\<close>.
\<close>

theorem caption_contiguity_witness:
  "subtitleData True
     (\<lambda>s. if s = ''9.2'' then Some (46 / 5) else if s = ''11.0'' then Some 11
           else if s = ''9.8'' then Some (49 / 5) else None)
     (\<lambda>i. ProbeClose 0 ([''9.2'', ''11.0'', ''9.8''] ! i))
     [\<lparr>seg_text = ''one'', seg_duration = 10\<rparr>, \<lparr>seg_text = ''two'', seg_duration = 10\<rparr>,
      \<lparr>seg_text = ''three'', seg_duration = 10\<rparr>]
   = Some [\<lparr>cap_text = ''one'', startTime = 0, endTime = 46 / 5\<rparr>,
           \<lparr>cap_text = ''two'', startTime = 46 / 5, endTime = 101 / 5\<rparr>,
           \<lparr>cap_text = ''three'', startTime = 101 / 5, endTime = 30\<rparr>]
   \<and> sum_list [46 / 5, 11, 49 / 5 :: real] = 30"
proof -
  let ?pf = "\<lambda>s. if s = ''9.2'' then Some (46 / 5 :: real) else if s = ''11.0'' then Some 11
                  else if s = ''9.8'' then Some (49 / 5) else None"
  let ?probe = "\<lambda>i. ProbeClose 0 ([''9.2'', ''11.0'', ''9.8''] ! i)"
  let ?segs = "[\<lparr>seg_text = ''one'', seg_duration = 10\<rparr>, \<lparr>seg_text = ''two'', seg_duration = 10\<rparr>,
                \<lparr>seg_text = ''three'', seg_duration = 10 :: real\<rparr>]"
  let ?ds = "[46 / 5, 11, 49 / 5 :: real]"
  have probes: "\<forall>k < length ?segs. getAudioDuration ?pf (?probe k) = Inr (?ds ! k)"
    by (simp add: getAudioDuration_def trim_def isspace_def less_Suc_eq)
  have computed: "subtitleData True ?pf ?probe ?segs
      = Some [\<lparr>cap_text = ''one'', startTime = 0, endTime = 46 / 5\<rparr>,
              \<lparr>cap_text = ''two'', startTime = 46 / 5, endTime = 101 / 5\<rparr>,
              \<lparr>cap_text = ''three'', startTime = 101 / 5, endTime = 30\<rparr>]"
    by (simp add: subtitleData_def getAudioDuration_def trim_def isspace_def Let_def)
  from caption_contiguity [of ?ds ?segs ?pf ?probe, OF _ _ probes]
  obtain entries where "subtitleData True ?pf ?probe ?segs = Some entries"
    and "endTime (last entries) = sum_list ?ds"
    by auto
  then have "sum_list ?ds = 30" using computed by simp
  then show ?thesis using computed by simp
qed

section \<open>Properties of the caption text cleaning\<close>

lemma isspace_space: "isspace CHR '' ''"
  by (simp add: isspace_def)


lemma collapse_Nil_iff: "collapse s = [] \<longleftrightarrow> s = []"
  by (cases s) auto


lemma dropWhile_head: "dropWhile P s = [] \<or> \<not> P (hd (dropWhile P s))"
  using hd_dropWhile by blast

































section \<open>Properties of \<open>createSubtitleSegments\<close>\<close>

lemma wrapWords_bounded:
  assumes "\<forall>w \<in> set words. length w \<le> 60" and "\<forall>l \<in> set lines. length l \<le> 60"
    and "length currentLine \<le> 60"
    and "wrapWords words lines currentLine = (lines', currentLine')"
  shows "(\<forall>l \<in> set lines'. length l \<le> 60) \<and> length currentLine' \<le> 60"
  using assms
proof (induction words arbitrary: lines currentLine)
  case Nil
  then show ?case by simp
next
  case (Cons word words)
  have short: "\<forall>w \<in> set words. length w \<le> 60" using Cons.prems(1) by simp
  show ?case
  proof (cases "length (currentLine @ '' '' @ word) \<le> 60")
    case True
    let ?cur = "if currentLine \<noteq> [] then currentLine @ '' '' @ word else word"
    have run: "wrapWords words lines ?cur = (lines', currentLine')"
      using Cons.prems(4) True by simp
    have fits: "length ?cur \<le> 60" using True by auto
    show ?thesis by (rule Cons.IH [OF short Cons.prems(2) fits run])
  next
    case False
    let ?ls = "if currentLine \<noteq> [] then lines @ [currentLine] else lines"
    have run: "wrapWords words ?ls word = (lines', currentLine')"
      using Cons.prems(4) False by simp
    have pushed: "\<forall>l \<in> set ?ls. length l \<le> 60" using Cons.prems(2,3) by auto
    have fits: "length word \<le> 60" using Cons.prems(1) by simp
    show ?thesis by (rule Cons.IH [OF short pushed fits run])
  qed
qed

lemma wrapLines_bounded:
  assumes "\<forall>w \<in> set (splitBy (\<lambda>c. c = CHR '' '') input). length w \<le> 60"
  shows "\<forall>l \<in> set (wrapLines input). length l \<le> 60"
proof -
  obtain ls cur where w: "wrapWords (splitBy (\<lambda>c. c = CHR '' '') input) [] [] = (ls, cur)"
    by (cases "wrapWords (splitBy (\<lambda>c. c = CHR '' '') input) [] []") auto
  have "(\<forall>l \<in> set ls. length l \<le> 60) \<and> length cur \<le> 60"
    by (rule wrapWords_bounded [OF assms _ _ w]) simp_all
  then show ?thesis by (auto simp: wrapLines_def w Let_def)
qed

lemma pushLines_shape:
  "pushLines t ld lines =
     (map (\<lambda>k. \<lparr>cap_text = lines ! k, startTime = t + real k * ld,
                 endTime = t + real (Suc k) * ld\<rparr>) [0 ..< length lines],
      t + real (length lines) * ld)"
proof (induction lines arbitrary: t)
  case Nil
  then show ?case by simp
next
  case (Cons line rest)
  have shift: "[0 ..< length (line # rest)] = 0 # map Suc [0 ..< length rest]"
    by (simp add: upt_conv_Cons map_Suc_upt del: upt_Suc)
  show ?case
    unfolding shift by (simp add: Cons.IH algebra_simps del: upt_Suc)
qed

lemma subtitleLoop_Cons:
  "subtitleLoop t (segment # rest) =
     (let lines = wrapLines (seg_text segment);
          n = length lines;
          lineDuration = seg_duration segment / real n
      in map (\<lambda>k. \<lparr>cap_text = lines ! k, startTime = t + real k * lineDuration,
                    endTime = t + real (Suc k) * lineDuration\<rparr>) [0 ..< n]
         @ subtitleLoop (if n = 0 then t else t + seg_duration segment) rest)"
  by (simp add: pushLines_shape Let_def del: upt_Suc)

lemma subtitleLoop_bounded:
  assumes "\<forall>seg \<in> set segs. \<forall>w \<in> set (splitBy (\<lambda>c. c = CHR '' '') (seg_text seg)). length w \<le> 60"
  shows "\<forall>e \<in> set (subtitleLoop t segs). length (cap_text e) \<le> 60"
  using assms
proof (induction segs arbitrary: t)
  case Nil
  then show ?case by simp
next
  case (Cons seg rest)
  have here: "\<forall>l \<in> set (wrapLines (seg_text seg)). length l \<le> 60"
    by (rule wrapLines_bounded) (use Cons.prems in simp)
  have rest: "\<forall>e \<in> set (subtitleLoop t' rest). length (cap_text e) \<le> 60" for t'
    by (rule Cons.IH) (use Cons.prems in simp)
  show ?case
    unfolding subtitleLoop_Cons Let_def using here rest by (auto simp del: upt_Suc)
qed

text \<open>
  C10 (as amended). When every piece of each segment's text between two space characters
  (the separator of \<open>text.split(' ')\<close>) has at most 60 characters, every subtitle line made
  by \<open>createSubtitleSegments\<close> has at most 60 characters. Whatever the texts are, the lines
  of one segment come in order, back to back from the running time, each lasting the
  segment's duration divided by the number of its lines, and the next segment starts
  where they end: one segment duration later, or at the same time when the segment has no
  line.
\<close>

theorem subtitle_lines:
  "((\<forall>seg \<in> set segs. \<forall>w \<in> set (splitBy (\<lambda>c. c = CHR '' '') (seg_text seg)). length w \<le> 60)
      \<longrightarrow> (\<forall>e \<in> set (createSubtitleSegments segs t0). length (cap_text e) \<le> 60))
   \<and> createSubtitleSegments [] t = []
   \<and> createSubtitleSegments (segment # rest) t =
       (let lines = wrapLines (seg_text segment);
            n = length lines;
            lineDuration = seg_duration segment / real n
        in map (\<lambda>k. \<lparr>cap_text = lines ! k, startTime = t + real k * lineDuration,
                      endTime = t + real (Suc k) * lineDuration\<rparr>) [0 ..< n]
           @ createSubtitleSegments rest (if n = 0 then t else t + seg_duration segment))"
proof -
  have bound: "(\<forall>seg \<in> set segs. \<forall>w \<in> set (splitBy (\<lambda>c. c = CHR '' '') (seg_text seg)). length w \<le> 60)
      \<longrightarrow> (\<forall>e \<in> set (createSubtitleSegments segs t0). length (cap_text e) \<le> 60)"
    unfolding createSubtitleSegments_def using subtitleLoop_bounded by blast
  have nil: "createSubtitleSegments [] t = []"
    by (simp add: createSubtitleSegments_def)
  have step: "createSubtitleSegments (segment # rest) t =
       (let lines = wrapLines (seg_text segment);
            n = length lines;
            lineDuration = seg_duration segment / real n
        in map (\<lambda>k. \<lparr>cap_text = lines ! k, startTime = t + real k * lineDuration,
                      endTime = t + real (Suc k) * lineDuration\<rparr>) [0 ..< n]
           @ createSubtitleSegments rest (if n = 0 then t else t + seg_duration segment))"
    unfolding createSubtitleSegments_def by (rule subtitleLoop_Cons)
  show ?thesis by (intro conjI bound nil step)
qed

text \<open>
  The theorem at one segment of 81 characters that wraps into two lines of 40, each
  shown for half of the segment's four seconds.
\<close>

theorem subtitle_lines_witness:
  "list_all (\<lambda>w. length w \<le> 60)
     (splitBy (\<lambda>c. c = CHR '' '')
        ''aaaaaaaaaaaaaaaaaaaaaaaaaaaaaaaaaaaaaaaa bbbbbbbbbbbbbbbbbbbbbbbbbbbbbbbbbbbbbbbb'')
   \<and> list_all (\<lambda>e. length (cap_text e) \<le> 60)
       (createSubtitleSegments
          [\<lparr>seg_text = ''aaaaaaaaaaaaaaaaaaaaaaaaaaaaaaaaaaaaaaaa bbbbbbbbbbbbbbbbbbbbbbbbbbbbbbbbbbbbbbbb'',
            seg_duration = 4\<rparr>] 0)
   \<and> createSubtitleSegments
         [\<lparr>seg_text = ''aaaaaaaaaaaaaaaaaaaaaaaaaaaaaaaaaaaaaaaa bbbbbbbbbbbbbbbbbbbbbbbbbbbbbbbbbbbbbbbb'',
           seg_duration = 4\<rparr>] 0
       = [\<lparr>cap_text = ''aaaaaaaaaaaaaaaaaaaaaaaaaaaaaaaaaaaaaaaa'', startTime = 0, endTime = 2\<rparr>,
          \<lparr>cap_text = ''bbbbbbbbbbbbbbbbbbbbbbbbbbbbbbbbbbbbbbbb'', startTime = 2, endTime = 4\<rparr>]"
proof -
  let ?segs = "[\<lparr>seg_text = ''aaaaaaaaaaaaaaaaaaaaaaaaaaaaaaaaaaaaaaaa bbbbbbbbbbbbbbbbbbbbbbbbbbbbbbbbbbbbbbbb'',
                  seg_duration = 4\<rparr>]"
  have words: "\<forall>seg \<in> set ?segs. \<forall>w \<in> set (splitBy (\<lambda>c. c = CHR '' '') (seg_text seg)). length w \<le> 60"
    by simp
  have lines: "wrapLines ''aaaaaaaaaaaaaaaaaaaaaaaaaaaaaaaaaaaaaaaa bbbbbbbbbbbbbbbbbbbbbbbbbbbbbbbbbbbbbbbb''
      = [''aaaaaaaaaaaaaaaaaaaaaaaaaaaaaaaaaaaaaaaa'', ''bbbbbbbbbbbbbbbbbbbbbbbbbbbbbbbbbbbbbbbb'']"
    by (simp add: wrapLines_def)
  from subtitle_lines [of ?segs 0 0 "hd ?segs" "[]"] words
  have bounded: "\<forall>e \<in> set (createSubtitleSegments ?segs 0). length (cap_text e) \<le> 60"
    and shape: "createSubtitleSegments ?segs 0 =
       (let lines = wrapLines (seg_text (hd ?segs));
            n = length lines;
            lineDuration = seg_duration (hd ?segs) / real n
        in map (\<lambda>k. \<lparr>cap_text = lines ! k, startTime = 0 + real k * lineDuration,
                      endTime = 0 + real (Suc k) * lineDuration\<rparr>) [0 ..< n]
           @ createSubtitleSegments [] (if n = 0 then 0 else 0 + seg_duration (hd ?segs)))"
    by simp_all
  have result: "createSubtitleSegments ?segs 0
       = [\<lparr>cap_text = ''aaaaaaaaaaaaaaaaaaaaaaaaaaaaaaaaaaaaaaaa'', startTime = 0, endTime = 2\<rparr>,
          \<lparr>cap_text = ''bbbbbbbbbbbbbbbbbbbbbbbbbbbbbbbbbbbbbbbb'', startTime = 2, endTime = 4\<rparr>]"
    unfolding shape by (simp add: lines Let_def createSubtitleSegments_def)
  show ?thesis using bounded result by (simp add: list_all_iff)
qed

text \<open>
  The claim as stated speaks of whitespace-separated words, but the code splits at the
  space character only. Two words of 40 characters with a tab between them are one piece
  for \<open>split(' ')\<close>, and the line made of it has 81 characters.
\<close>

theorem subtitle_lines_counterexample:
  "splitBy isspace
     (''aaaaaaaaaaaaaaaaaaaaaaaaaaaaaaaaaaaaaaaa'' @ [CHR 0x09] @ ''bbbbbbbbbbbbbbbbbbbbbbbbbbbbbbbbbbbbbbbb'')
     = [''aaaaaaaaaaaaaaaaaaaaaaaaaaaaaaaaaaaaaaaa'', ''bbbbbbbbbbbbbbbbbbbbbbbbbbbbbbbbbbbbbbbb'']
   \<and> createSubtitleSegments
         [\<lparr>seg_text = ''aaaaaaaaaaaaaaaaaaaaaaaaaaaaaaaaaaaaaaaa'' @ [CHR 0x09]
                         @ ''bbbbbbbbbbbbbbbbbbbbbbbbbbbbbbbbbbbbbbbb'',
           seg_duration = 4\<rparr>] 0
       = [\<lparr>cap_text = ''aaaaaaaaaaaaaaaaaaaaaaaaaaaaaaaaaaaaaaaa'' @ [CHR 0x09]
                         @ ''bbbbbbbbbbbbbbbbbbbbbbbbbbbbbbbbbbbbbbbb'',
           startTime = 0, endTime = 4\<rparr>]
   \<and> length (''aaaaaaaaaaaaaaaaaaaaaaaaaaaaaaaaaaaaaaaa'' @ [CHR 0x09]
               @ ''bbbbbbbbbbbbbbbbbbbbbbbbbbbbbbbbbbbbbbbb'') = 81"
  by (simp add: createSubtitleSegments_def wrapLines_def Let_def isspace_def)

section \<open>Properties of the render functions\<close>

lemma spawnFfmpeg_ok:
  assumes "clock w = None" and "ffmpeg_exit env (length (spawned w)) = Close 0 err"
  shows "spawnFfmpeg env args w =
           (Resolved (Close 0 err),
            writeFile (last args) (Media 1) (w\<lparr>spawned := spawned w @ [(''ffmpeg'', args)]\<rparr>))"
  using assms by (simp add: spawnFfmpeg_def Let_def andThen_def pending_def)

text \<open>
  C9. Each of the three \<open>createVideo\<close> functions, called with no image or with no audio
  segment, rejects with \<open>No assets provided for video creation\<close> and leaves the world as
  it was: no process is spawned and no file is touched.
\<close>

theorem empty_assets_rejected:
  assumes "a_images assets = [] \<or> a_audioSegments assets = []"
  shows "createVideo_enhanced env assets outputPath totalDuration subtitles videoTopic textFont textColor w
           = (Rejected ''No assets provided for video creation'', w)
       \<and> createVideo_basic env assets outputPath totalDuration subtitles videoTopic textFont textColor w
           = (Rejected ''No assets provided for video creation'', w)
       \<and> createVideo_videoProcessor env assets outputPath totalDuration subtitles videoTopic textFont textColor w
           = (Rejected ''No assets provided for video creation'', w)"
  using assms
  by (simp add: createVideo_enhanced_def createVideo_basic_def createVideo_videoProcessor_def
      reject_def)

text \<open>The theorem at an empty image list and one audio clip.\<close>

theorem empty_assets_rejected_witness:
  "createVideo_enhanced sampleEnv
       \<lparr>a_images = [], a_audioSegments = [''temp/audio-v1-0.mp3''], a_scriptSegments = None\<rparr>
       ''temp/video-v1.mp4'' 10 None None None None freshWorld
     = (Rejected ''No assets provided for video creation'', freshWorld)
   \<and> createVideo_basic sampleEnv
       \<lparr>a_images = [], a_audioSegments = [''temp/audio-v1-0.mp3''], a_scriptSegments = None\<rparr>
       ''temp/video-v1.mp4'' 10 None None None None freshWorld
     = (Rejected ''No assets provided for video creation'', freshWorld)
   \<and> createVideo_videoProcessor sampleEnv
       \<lparr>a_images = [], a_audioSegments = [''temp/audio-v1-0.mp3''], a_scriptSegments = None\<rparr>
       ''temp/video-v1.mp4'' 10 None None None None freshWorld
     = (Rejected ''No assets provided for video creation'', freshWorld)
   \<and> spawned freshWorld = []"
  using empty_assets_rejected
    [of "\<lparr>a_images = [], a_audioSegments = [''temp/audio-v1-0.mp3''], a_scriptSegments = None\<rparr>"
        sampleEnv "''temp/video-v1.mp4''" 10 None None None None freshWorld]
  by (simp add: freshWorld_def)

text \<open>With one image and one clip on disk the same function does spawn ffmpeg.\<close>

lemma nonempty_spawns:
  "spawned (snd (createVideo_enhanced sampleEnv
       \<lparr>a_images = [''temp/image-v1-0.jpg''], a_audioSegments = [''temp/audio-v1-0.mp3''], a_scriptSegments = None\<rparr>
       ''temp/video-v1.mp4'' 10 None None None None
       (freshWorld\<lparr>files := [''temp/image-v1-0.jpg'' \<mapsto> Media 1, ''temp/audio-v1-0.mp3'' \<mapsto> Media 1]\<rparr>))) \<noteq> []"
  by code_simp

section \<open>Properties of the visual timeline\<close>

lemma length_imageInputs: "length (imageInputs seconds imagePaths) = 6 * length imagePaths"
  by (induction imagePaths) (simp_all add: imageInputs_def)

lemma share_sum:
  assumes "n \<noteq> 0"
  shows "real n * durationPerImage d n = d"
  using assms by (simp add: durationPerImage_def)

text \<open>
  C3 (as amended). For \<open>N \<ge> 1\<close> images and a total duration \<open>D\<close>, the enhanced and the
  basic processor compute the same length \<open>D / N\<close> for every image, and \<open>N\<close> such lengths
  add up to \<open>D\<close>. The first processor reserves two seconds for the title page when it made
  one and computes \<open>(D - titleDuration) / N\<close>, so that the title and the \<open>N\<close> lengths add up
  to \<open>D\<close>. The images are handed to the encoder in image order, each as a looped still that
  lasts its length plus one second (enhanced) or plus half a second (basic and first
  processor).
\<close>

theorem visual_partition:
  assumes "a_images assets \<noteq> []"
  shows "(let n = length (a_images assets) in
           durationPerImage totalDuration n = totalDuration / real n
         \<and> real n * durationPerImage totalDuration n = totalDuration
         \<and> (\<exists>rest. advancedVideoArgs env (a_images assets) audioPath outputPath subtitles textColor
                      totalDuration
                    = [''-y'', ''-i'', audioPath]
                      @ imageInputs (num_to_string env (totalDuration / real n + 1)) (a_images assets)
                      @ rest)
         \<and> (\<exists>rest. basicVideoArgs env assets outputPath audioPath totalDuration subtitles textColor
                      videoTopic
                    = [''-y'']
                      @ imageInputs (num_to_string env (totalDuration / real n + 1 / 2)) (a_images assets)
                      @ rest)
         \<and> titleDuration None = 0 \<and> titleDuration (Some p) = 2
         \<and> durationPerImage (contentDuration titlePagePath totalDuration) n
             = (totalDuration - titleDuration titlePagePath) / real n
         \<and> titleDuration titlePagePath
             + real n * durationPerImage (contentDuration titlePagePath totalDuration) n = totalDuration
         \<and> (\<exists>rest. videoProcessorArgs env assets outputPath totalDuration None
                    = [''-y'']
                      @ imageInputs (num_to_string env (totalDuration / real n + 1 / 2)) (a_images assets)
                      @ rest)
         \<and> (\<exists>rest. videoProcessorArgs env assets outputPath totalDuration (Some p)
                    = [''-y'', ''-loop'', ''1'', ''-t'', num_to_string env 2, ''-i'', p]
                      @ imageInputs (num_to_string env ((totalDuration - 2) / real n + 1 / 2))
                          (a_images assets)
                      @ rest))"
proof -
  let ?n = "length (a_images assets)"
  have n: "?n \<noteq> 0" using assms by simp
  have share: "durationPerImage totalDuration ?n = totalDuration / real ?n"
    by (simp add: durationPerImage_def)
  have total: "real ?n * durationPerImage totalDuration ?n = totalDuration"
    by (rule share_sum [OF n])
  have enhanced: "\<exists>rest. advancedVideoArgs env (a_images assets) audioPath outputPath subtitles
        textColor totalDuration
      = [''-y'', ''-i'', audioPath]
        @ imageInputs (num_to_string env (totalDuration / real ?n + 1)) (a_images assets) @ rest"
    by (cases subtitles) (simp_all add: advancedVideoArgs_def Let_def durationPerImage_def)
  have basic: "\<exists>rest. basicVideoArgs env assets outputPath audioPath totalDuration subtitles textColor
        videoTopic
      = [''-y'']
        @ imageInputs (num_to_string env (totalDuration / real ?n + 1 / 2)) (a_images assets) @ rest"
    by (simp add: basicVideoArgs_def Let_def durationPerImage_def)
  have title: "titleDuration None = 0 \<and> titleDuration (Some p) = 2"
    by (simp add: titleDuration_def)
  have content: "durationPerImage (contentDuration titlePagePath totalDuration) ?n
      = (totalDuration - titleDuration titlePagePath) / real ?n"
    by (simp add: durationPerImage_def contentDuration_def)
  have whole: "titleDuration titlePagePath
      + real ?n * durationPerImage (contentDuration titlePagePath totalDuration) ?n = totalDuration"
    using share_sum [OF n, of "contentDuration titlePagePath totalDuration"]
    by (simp add: contentDuration_def)
  have first_plain: "\<exists>rest. videoProcessorArgs env assets outputPath totalDuration None
      = [''-y'']
        @ imageInputs (num_to_string env (totalDuration / real ?n + 1 / 2)) (a_images assets) @ rest"
    by (simp add: videoProcessorArgs_def Let_def durationPerImage_def contentDuration_def
        titleDuration_def)
  have first_title: "\<exists>rest. videoProcessorArgs env assets outputPath totalDuration (Some p)
      = [''-y'', ''-loop'', ''1'', ''-t'', num_to_string env 2, ''-i'', p]
        @ imageInputs (num_to_string env ((totalDuration - 2) / real ?n + 1 / 2)) (a_images assets)
        @ rest"
    by (simp add: videoProcessorArgs_def Let_def durationPerImage_def contentDuration_def
        titleDuration_def)
  show ?thesis
    unfolding Let_def
    by (intro conjI share total enhanced basic content whole first_plain first_title
        conjunct1 [OF title] conjunct2 [OF title])
qed

text \<open>The theorem at three images and thirty seconds.\<close>

theorem visual_partition_witness:
  "durationPerImage 30 3 = 10
   \<and> titleDuration (Some ''temp/title_page.png'')
       + 3 * durationPerImage (contentDuration (Some ''temp/title_page.png'') 30) 3 = 30"
proof -
  let ?three = "\<lparr>a_images = [''a.jpg'', ''b.jpg'', ''c.jpg''], a_audioSegments = [''a.mp3''],
                  a_scriptSegments = None\<rparr>"
  show ?thesis
    using visual_partition [of ?three 30 sampleEnv "''x''" "''y''" None None None "''p''"
        "Some ''temp/title_page.png''"]
    by (simp add: Let_def durationPerImage_def contentDuration_def titleDuration_def)
qed

text \<open>
  The claim as stated fails in the first processor when a title page was made: with three
  images and thirty seconds each image gets 28/3 seconds, not 10, and is fed to the encoder
  for 28/3 + 1/2 seconds. In the enhanced processor one image for ten seconds is fed to
  the encoder for eleven.
\<close>

theorem visual_partition_counterexample:
  "durationPerImage (contentDuration (Some ''temp/title_page.png'') 30) 3 = 28 / 3
   \<and> durationPerImage (contentDuration (Some ''temp/title_page.png'') 30) 3 \<noteq> 30 / 3
   \<and> take 6 (drop 7 (videoProcessorArgs sampleEnv
         \<lparr>a_images = [''a.jpg'', ''b.jpg'', ''c.jpg''], a_audioSegments = [''a.mp3''], a_scriptSegments = None\<rparr>
         ''temp/video-v1.mp4'' 30 (Some ''temp/title_page.png'')))
       = [''-loop'', ''1'', ''-t'', ''9.833333333333334'', ''-i'', ''a.jpg'']
   \<and> take 6 (drop 3 (advancedVideoArgs sampleEnv [''temp/image-v1-0.jpg''] ''temp/final_audio.wav''
                ''temp/video-v1.mp4'' None None 10))
       = [''-loop'', ''1'', ''-t'', ''11'', ''-i'', ''temp/image-v1-0.jpg'']"
  by (simp add: durationPerImage_def contentDuration_def titleDuration_def videoProcessorArgs_def
      advancedVideoArgs_def imageInputs_def sampleEnv_def Let_def)

section \<open>Properties of the audio assembly\<close>

lemma spawn_succeeds:
  assumes "clock w = None" and "succeeded (ffmpeg_exit env (length (spawned w)))"
  shows "\<exists>err. spawnFfmpeg env args w =
           (Resolved (Close 0 err),
            writeFile (last args) (Media 1) (w\<lparr>spawned := spawned w @ [(''ffmpeg'', args)]\<rparr>))"
proof -
  obtain err where "ffmpeg_exit env (length (spawned w)) = Close 0 err"
    using assms(2) by (auto simp: succeeded_def split: proc_event.splits)
  then show ?thesis using spawnFfmpeg_ok [OF assms(1)] by blast
qed












section \<open>Properties of the backend fallback\<close>

text \<open>
  C8 (as amended). When the Revideo attempt rejects, as it does when the renderer throws
  (a missing browser included) after the narration was concatenated, \<open>createVideoWithRevideo\<close>
  calls the enhanced FFmpeg processor with the same arguments, in the world the attempt
  left, and the outcome of that call is the outcome of the job: the job completes when the
  fallback completes, and it rejects with the fallback's error when the fallback rejects.
\<close>

theorem revideo_fallback:
  "(clock w = None \<and> revideo_answer env = Some e
      \<and> succeeded (ffmpeg_exit env (length (spawned w)))
      \<longrightarrow> fst (revideoAttempt env assets outputPath w) = Rejected e)
   \<and> (fst (revideoAttempt env assets outputPath w) = Rejected e \<longrightarrow>
        createVideoWithRevideo env assets outputPath totalAudioDuration subs topic textFont textColor w
          = andThen
              (createVideo_enhanced env assets outputPath totalAudioDuration (Some subs) (Some topic)
                 textFont textColor)
              (\<lambda>_. resolve ())
              (snd (revideoAttempt env assets outputPath w)))
   \<and> (fst (revideoAttempt env assets outputPath w) = Rejected e
        \<and> fst (createVideo_enhanced env assets outputPath totalAudioDuration (Some subs) (Some topic)
                  textFont textColor (snd (revideoAttempt env assets outputPath w))) = Resolved p
        \<longrightarrow> fst (createVideoWithRevideo env assets outputPath totalAudioDuration subs topic textFont
                   textColor w) = Resolved ())
   \<and> (fst (revideoAttempt env assets outputPath w) = Rejected e
        \<and> fst (createVideo_enhanced env assets outputPath totalAudioDuration (Some subs) (Some topic)
                  textFont textColor (snd (revideoAttempt env assets outputPath w))) = Rejected e'
        \<longrightarrow> fst (createVideoWithRevideo env assets outputPath totalAudioDuration subs topic textFont
                   textColor w) = Rejected e')"
proof -
  let ?attempt = "revideoAttempt env assets outputPath w"
  let ?fallback = "createVideo_enhanced env assets outputPath totalAudioDuration (Some subs) (Some topic)
                     textFont textColor"
  have unavailable: "fst ?attempt = Rejected e"
    if "clock w = None" and "revideo_answer env = Some e"
      and "succeeded (ffmpeg_exit env (length (spawned w)))"
  proof -
    let ?dir = "dirname outputPath"
    let ?w1 = "writeFile (pathJoin ?dir ''audio_files.txt'') (Text (fileList (a_audioSegments assets))) w"
    let ?args = "segmentListArgs (pathJoin ?dir ''audio_files.txt'') (pathJoin ?dir ''final_audio.wav'')"
    have c1: "clock ?w1 = None" using that(1) by (simp add: writeFile_def)
    have s1: "succeeded (ffmpeg_exit env (length (spawned ?w1)))"
      using that(3) by (simp add: writeFile_def)
    obtain err where sp: "spawnFfmpeg env ?args ?w1 =
        (Resolved (Close 0 err),
         writeFile (last ?args) (Media 1) (?w1\<lparr>spawned := spawned ?w1 @ [(''ffmpeg'', ?args)]\<rparr>))"
      using spawn_succeeds [OF c1 s1] by blast
    let ?w2 = "writeFile (last ?args) (Media 1) (?w1\<lparr>spawned := spawned ?w1 @ [(''ffmpeg'', ?args)]\<rparr>)"
    let ?w3 = "if existsSync (pathJoin ?dir ''audio_files.txt'') ?w2
               then unlink (pathJoin ?dir ''audio_files.txt'') ?w2 else ?w2"
    have narration: "concatenateAudioSegments env (a_audioSegments assets) ?dir w
        = (Resolved (pathJoin ?dir ''final_audio.wav''), ?w3)"
      by (simp add: concatenateAudioSegments_def Let_def andThen_def sp)
    have c3: "clock ?w3 = None" using that(1) by (simp add: writeFile_def unlink_def)
    have "renderVideoWithRevideo env outputPath ?w3 = (Rejected e, ?w3)"
      unfolding renderVideoWithRevideo_def andThen_def pending_def c3 using that(2) by simp
    then show ?thesis
      unfolding revideoAttempt_def andThen_def narration by simp
  qed
  have falls_back: "createVideoWithRevideo env assets outputPath totalAudioDuration subs topic textFont
        textColor w = andThen ?fallback (\<lambda>_. resolve ()) (snd ?attempt)"
    if "fst ?attempt = Rejected e"
    using that
    by (cases ?attempt) (simp add: createVideoWithRevideo_def catchError_def)
  have completes: "fst (createVideoWithRevideo env assets outputPath totalAudioDuration subs topic
        textFont textColor w) = Resolved ()"
    if "fst ?attempt = Rejected e" and "fst (?fallback (snd ?attempt)) = Resolved p"
    using that(2) unfolding falls_back [OF that(1)]
    by (cases "?fallback (snd ?attempt)") (simp add: andThen_def resolve_def)
  have fails: "fst (createVideoWithRevideo env assets outputPath totalAudioDuration subs topic
        textFont textColor w) = Rejected e'"
    if "fst ?attempt = Rejected e" and "fst (?fallback (snd ?attempt)) = Rejected e'"
    using that(2) unfolding falls_back [OF that(1)]
    by (cases "?fallback (snd ?attempt)") (simp add: andThen_def)
  show ?thesis using unavailable falls_back completes fails by blast
qed


text \<open>
  The theorem at a job whose renderer has no browser: the fallback succeeds when the
  image is on disk, and fails when it is not.
\<close>

theorem revideo_fallback_witness:
  "fst (revideoAttempt (sampleEnv\<lparr>revideo_answer := Some ''Chrome not found''\<rparr>)
          \<lparr>a_images = [''temp/image_0.jpg''], a_audioSegments = [''temp/audio_0.mp3''],
            a_scriptSegments = Some [\<lparr>seg_text = ''Hello world'', seg_duration = 10\<rparr>]\<rparr>
          ''temp/v1.mp4''
          (freshWorld\<lparr>files := [''temp/image_0.jpg'' \<mapsto> Media 2048,
                                   ''temp/audio_0.mp3'' \<mapsto> Media 4096]\<rparr>))
     = Rejected ''Chrome not found''
   \<and> fst (createVideoWithRevideo (sampleEnv\<lparr>revideo_answer := Some ''Chrome not found''\<rparr>)
          \<lparr>a_images = [''temp/image_0.jpg''], a_audioSegments = [''temp/audio_0.mp3''],
            a_scriptSegments = Some [\<lparr>seg_text = ''Hello world'', seg_duration = 10\<rparr>]\<rparr>
          ''temp/v1.mp4'' 10
          \<lparr>s_segments = [\<lparr>seg_text = ''Hello world'', seg_duration = 10\<rparr>], s_enabled = True\<rparr>
          ''Greeting'' None None
          (freshWorld\<lparr>files := [''temp/image_0.jpg'' \<mapsto> Media 2048,
                                   ''temp/audio_0.mp3'' \<mapsto> Media 4096]\<rparr>))
     = Resolved ()
   \<and> fst (createVideoWithRevideo (sampleEnv\<lparr>revideo_answer := Some ''Chrome not found''\<rparr>)
          \<lparr>a_images = [''temp/image_0.jpg''], a_audioSegments = [''temp/audio_0.mp3''],
            a_scriptSegments = Some [\<lparr>seg_text = ''Hello world'', seg_duration = 10\<rparr>]\<rparr>
          ''temp/v1.mp4'' 10
          \<lparr>s_segments = [\<lparr>seg_text = ''Hello world'', seg_duration = 10\<rparr>], s_enabled = True\<rparr>
          ''Greeting'' None None
          (freshWorld\<lparr>files := [''temp/audio_0.mp3'' \<mapsto> Media 4096]\<rparr>))
     = Rejected ''Image file not found: temp/image_0.jpg''"
proof -
  let ?env = "sampleEnv\<lparr>revideo_answer := Some ''Chrome not found''\<rparr>"
  let ?assets = "\<lparr>a_images = [''temp/image_0.jpg''], a_audioSegments = [''temp/audio_0.mp3''],
                   a_scriptSegments = Some [\<lparr>seg_text = ''Hello world'', seg_duration = 10\<rparr>]\<rparr>"
  let ?subs = "\<lparr>s_segments = [\<lparr>seg_text = ''Hello world'', seg_duration = 10\<rparr>], s_enabled = True\<rparr>"
  let ?w = "freshWorld\<lparr>files := [''temp/image_0.jpg'' \<mapsto> Media 2048,
                                   ''temp/audio_0.mp3'' \<mapsto> Media 4096]\<rparr>"
  let ?bare = "freshWorld\<lparr>files := [''temp/audio_0.mp3'' \<mapsto> Media 4096]\<rparr>"
  have timer: "clock ?w = None" by (simp add: freshWorld_def)
  have answer: "revideo_answer ?env = Some ''Chrome not found''" by simp
  have narration: "succeeded (ffmpeg_exit ?env (length (spawned ?w)))"
    by (simp add: sampleEnv_def succeeded_def freshWorld_def)
  note fallback = revideo_fallback [of ?w ?env "''Chrome not found''" ?assets "''temp/v1.mp4''" 10 ?subs
      "''Greeting''" None None "''temp/v1.mp4''" "''none''"]
  have raised: "fst (revideoAttempt ?env ?assets ''temp/v1.mp4'' ?w) = Rejected ''Chrome not found''"
    using fallback timer answer narration by blast
  have rendered: "fst (createVideo_enhanced ?env ?assets ''temp/v1.mp4'' 10 (Some ?subs)
      (Some ''Greeting'') None None (snd (revideoAttempt ?env ?assets ''temp/v1.mp4'' ?w)))
      = Resolved ''temp/v1.mp4''"
    by code_simp
  have completed: "fst (createVideoWithRevideo ?env ?assets ''temp/v1.mp4'' 10 ?subs ''Greeting'' None
      None ?w) = Resolved ()"
    using fallback raised rendered by blast
  have timer': "clock ?bare = None" by (simp add: freshWorld_def)
  have narration': "succeeded (ffmpeg_exit ?env (length (spawned ?bare)))"
    by (simp add: sampleEnv_def succeeded_def freshWorld_def)
  note fallback' = revideo_fallback [of ?bare ?env "''Chrome not found''" ?assets "''temp/v1.mp4''" 10
      ?subs "''Greeting''" None None "''temp/v1.mp4''" "''Image file not found: temp/image_0.jpg''"]
  have raised': "fst (revideoAttempt ?env ?assets ''temp/v1.mp4'' ?bare) = Rejected ''Chrome not found''"
    using fallback' timer' answer narration' by blast
  have missing: "fst (createVideo_enhanced ?env ?assets ''temp/v1.mp4'' 10 (Some ?subs)
      (Some ''Greeting'') None None (snd (revideoAttempt ?env ?assets ''temp/v1.mp4'' ?bare)))
      = Rejected ''Image file not found: temp/image_0.jpg''"
    by code_simp
  have failed: "fst (createVideoWithRevideo ?env ?assets ''temp/v1.mp4'' 10 ?subs ''Greeting'' None
      None ?bare) = Rejected ''Image file not found: temp/image_0.jpg''"
    using fallback' raised' missing by blast
  show ?thesis by (intro conjI raised completed failed)
qed

text \<open>
  The claim as stated promises that the job completes. It does not when the fallback
  fails too: here the renderer has no browser and the fallback's first ffmpeg run exits
  with code 1.
\<close>

theorem revideo_fallback_counterexample:
  "fst (revideoAttempt
          (sampleEnv\<lparr>revideo_answer := Some ''Chrome not found'',
                      ffmpeg_exit := (\<lambda>k. if k = 0 then Close 0 [] else Close 1 ''Invalid data'')\<rparr>)
          \<lparr>a_images = [''temp/image_0.jpg''], a_audioSegments = [''temp/audio_0.mp3''],
            a_scriptSegments = Some [\<lparr>seg_text = ''Hello world'', seg_duration = 10\<rparr>]\<rparr>
          ''temp/v1.mp4''
          (freshWorld\<lparr>files := [''temp/image_0.jpg'' \<mapsto> Media 2048,
                                   ''temp/audio_0.mp3'' \<mapsto> Media 4096]\<rparr>))
     = Rejected ''Chrome not found''
   \<and> fst (createVideoWithRevideo
          (sampleEnv\<lparr>revideo_answer := Some ''Chrome not found'',
                      ffmpeg_exit := (\<lambda>k. if k = 0 then Close 0 [] else Close 1 ''Invalid data'')\<rparr>)
          \<lparr>a_images = [''temp/image_0.jpg''], a_audioSegments = [''temp/audio_0.mp3''],
            a_scriptSegments = Some [\<lparr>seg_text = ''Hello world'', seg_duration = 10\<rparr>]\<rparr>
          ''temp/v1.mp4'' 10
          \<lparr>s_segments = [\<lparr>seg_text = ''Hello world'', seg_duration = 10\<rparr>], s_enabled = True\<rparr>
          ''Greeting'' None None
          (freshWorld\<lparr>files := [''temp/image_0.jpg'' \<mapsto> Media 2048,
                                   ''temp/audio_0.mp3'' \<mapsto> Media 4096]\<rparr>))
     = Rejected ''Single audio processing failed: 1''"
  by code_simp

section \<open>Properties of the job\<close>









text \<open>Three runs of the job: all goes well; every ffmpeg run fails; the timer fires during the render.\<close>

lemma sample_run:
  "(let (r, w) = generateVideoContent sampleEnv (Some sampleVideo) ''v1'' ''temp'' freshWorld
    in (r, status (stored w), tempFiles w,
        map (files w) [''temp/image-v1-0.jpg'', ''temp/audio-v1-0.mp3'', ''temp/final_audio.wav'',
                       ''temp/video-v1.mp4'', ''temp/audio_list.txt'']))
   = (Inr (), ''completed'', [''temp/image-v1-0.jpg'', ''temp/audio-v1-0.mp3''],
      [Some (Media 2048), Some (Media 4096), Some (Media 1), Some (Media 1), None])"
  by code_simp

lemma failing_run:
  "(let (r, w) = generateVideoContent (sampleEnv\<lparr>ffmpeg_exit := (\<lambda>k. Close 1 ''Invalid data'')\<rparr>)
                   (Some sampleVideo) ''v1'' ''temp'' freshWorld
    in (r, status (stored w), errorMessage (stored w),
        map (files w) [''temp/image-v1-0.jpg'', ''temp/audio-v1-0.mp3'', ''temp/final_audio.wav'',
                       ''temp/video-v1.mp4'']))
   = (Inl ''Single audio processing failed: 1'', ''failed'', Some ''Single audio processing failed: 1'',
      [None, None, None, None])"
  by code_simp

lemma late_run:
  "(let (r, w) = generateVideoContent sampleEnv (Some sampleVideo) ''v1'' ''temp''
                   (freshWorld\<lparr>clock := Some 6\<rparr>)
    in (r, status (stored w), errorMessage (stored w), length (spawned w),
        map (files w) [''temp/image-v1-0.jpg'', ''temp/audio-v1-0.mp3'', ''temp/final_audio.wav'',
                       ''temp/video-v1.mp4'']))
   = (Inl ''Video generation timed out after 10 minutes'', ''failed'',
      Some ''Video generation timed out after 10 minutes'', 2,
      [None, None, Some (Media 1), None])"
  by code_simp







section \<open>Properties of the duration probe and its use\<close>

lemma captionLoop_lengths:
  "\<forall>k < length segs.
     endTime (captionLoop pf probe i t segs ! k) - startTime (captionLoop pf probe i t segs ! k)
       = (case getAudioDuration pf (probe (i + k)) of
            Inr measured \<Rightarrow> measured
          | Inl _ \<Rightarrow> seg_duration (segs ! k))"
proof (induction segs arbitrary: i t)
  case Nil
  then show ?case by simp
next
  case (Cons seg rest)
  show ?case
  proof (intro allI impI)
    fix k assume k: "k < length (seg # rest)"
    show "endTime (captionLoop pf probe i t (seg # rest) ! k)
            - startTime (captionLoop pf probe i t (seg # rest) ! k)
          = (case getAudioDuration pf (probe (i + k)) of
               Inr measured \<Rightarrow> measured
             | Inl _ \<Rightarrow> seg_duration ((seg # rest) ! k))"
    proof (cases k)
      case 0
      then show ?thesis by (simp add: Let_def split: sum.splits)
    next
      case (Suc j)
      then have "j < length rest" using k by simp
      then show ?thesis using Cons.IH [of "Suc i"] Suc by (simp add: Let_def split: sum.splits)
    qed
  qed
qed

lemma pendingTimes_no_timer: "clock w = None \<Longrightarrow> pendingTimes n w = (Resolved (), w)"
  by (induction n) (simp_all add: resolve_def andThen_def pending_def)

text \<open>
  C1 (as amended). \<open>getAudioDuration\<close> rejects when ffprobe exits with a code other than 0,
  when it cannot be started, and when \<open>parseFloat\<close> cannot read its output; it resolves with
  a positive number that \<open>parseFloat\<close> reads. In step 5 of \<open>generateVideoContent\<close> a rejected
  probe is caught: the caption of segment \<open>i\<close> lasts the measured duration when the probe of
  clip \<open>i\<close> resolves and the segment's script duration when it rejects, there is one caption
  per segment, and the step itself never rejects.
\<close>

theorem probe_failure_handling:
  "(code \<noteq> 0 \<longrightarrow>
      getAudioDuration pf (ProbeClose code output) = Inl (''ffprobe failed with code '' @ show_int code))
   \<and> getAudioDuration pf (ProbeError e) = Inl e
   \<and> (pf (trim output) = None \<longrightarrow>
        getAudioDuration pf (ProbeClose 0 output) = Inl ''Could not parse audio duration'')
   \<and> (pf (trim output) = Some d \<and> 0 < d \<longrightarrow> getAudioDuration pf (ProbeClose 0 output) = Inr d)
   \<and> length (captionLoop pf probe 0 0 segs) = length segs
   \<and> (\<forall>k < length segs.
        endTime (captionLoop pf probe 0 0 segs ! k) - startTime (captionLoop pf probe 0 0 segs ! k)
          = (case getAudioDuration pf (probe k) of
               Inr measured \<Rightarrow> measured
             | Inl _ \<Rightarrow> seg_duration (segs ! k)))
   \<and> (clock w = None \<longrightarrow>
        subtitleStep env subtitles segs w
          = (Resolved (subtitleData subtitles (parse_float env) (ffprobe_exit env) segs), w))"
proof -
  have nonzero: "code \<noteq> 0 \<longrightarrow>
      getAudioDuration pf (ProbeClose code output) = Inl (''ffprobe failed with code '' @ show_int code)"
    by (simp add: getAudioDuration_def)
  have spawn: "getAudioDuration pf (ProbeError e) = Inl e"
    by (simp add: getAudioDuration_def)
  have unparsed: "pf (trim output) = None \<longrightarrow>
      getAudioDuration pf (ProbeClose 0 output) = Inl ''Could not parse audio duration''"
    by (simp add: getAudioDuration_def)
  have parsed: "pf (trim output) = Some d \<and> 0 < d \<longrightarrow> getAudioDuration pf (ProbeClose 0 output) = Inr d"
    by (simp add: getAudioDuration_def)
  have entries: "length (captionLoop pf probe 0 0 segs) = length segs"
    by (rule captionLoop_length)
  have lengths: "\<forall>k < length segs.
        endTime (captionLoop pf probe 0 0 segs ! k) - startTime (captionLoop pf probe 0 0 segs ! k)
          = (case getAudioDuration pf (probe k) of
               Inr measured \<Rightarrow> measured
             | Inl _ \<Rightarrow> seg_duration (segs ! k))"
    using captionLoop_lengths [of segs pf probe 0 0] by simp
  have step: "clock w = None \<longrightarrow>
        subtitleStep env subtitles segs w
          = (Resolved (subtitleData subtitles (parse_float env) (ffprobe_exit env) segs), w)"
    by (simp add: subtitleStep_def andThen_def pendingTimes_no_timer resolve_def)
  show ?thesis by (intro conjI nonzero spawn unparsed parsed entries lengths step)
qed

text \<open>The theorem at one segment of ten seconds, for a failing and for a working probe.\<close>

theorem probe_failure_handling_witness:
  "getAudioDuration (parse_float sampleEnv) (ProbeClose 1 []) = Inl ''ffprobe failed with code 1''
   \<and> getAudioDuration (parse_float sampleEnv) (ProbeClose 0 ''garbage'')
       = Inl ''Could not parse audio duration''
   \<and> getAudioDuration (parse_float sampleEnv) (ProbeClose 0 ''9.2'') = Inr (46 / 5)
   \<and> endTime (captionLoop (parse_float sampleEnv) (\<lambda>i. ProbeClose 1 []) 0 0
                 [\<lparr>seg_text = ''Hello world'', seg_duration = 10\<rparr>] ! 0)
       - startTime (captionLoop (parse_float sampleEnv) (\<lambda>i. ProbeClose 1 []) 0 0
                 [\<lparr>seg_text = ''Hello world'', seg_duration = 10\<rparr>] ! 0) = 10
   \<and> subtitleStep sampleEnv True [\<lparr>seg_text = ''Hello world'', seg_duration = 10\<rparr>] freshWorld
       = (Resolved (Some [\<lparr>cap_text = ''Hello world'', startTime = 0, endTime = 46 / 5\<rparr>]), freshWorld)"
proof -
  let ?pf = "parse_float sampleEnv"
  let ?segs = "[\<lparr>seg_text = ''Hello world'', seg_duration = 10\<rparr>]"
  have code: "(1::int) \<noteq> 0" by simp
  have garbage: "?pf (trim ''garbage'') = None" by (simp add: sampleEnv_def trim_def isspace_def)
  have number: "?pf (trim ''9.2'') = Some (46 / 5) \<and> (0::real) < 46 / 5"
    by (simp add: sampleEnv_def trim_def isspace_def)
  have timer: "clock freshWorld = None" by (simp add: freshWorld_def)
  have k: "(0::nat) < length ?segs" by simp
  note a = probe_failure_handling [of 1 ?pf "[]" "''none''" "46 / 5" "\<lambda>i. ProbeClose 1 []" ?segs freshWorld
      sampleEnv True]
  note b = probe_failure_handling [of 1 ?pf "''garbage''" "''none''" "46 / 5" "\<lambda>i. ProbeClose 1 []" ?segs
      freshWorld sampleEnv True]
  note c = probe_failure_handling [of 1 ?pf "''9.2''" "''none''" "46 / 5" "\<lambda>i. ProbeClose 1 []" ?segs
      freshWorld sampleEnv True]
  have 1: "getAudioDuration ?pf (ProbeClose 1 []) = Inl ''ffprobe failed with code 1''"
    using a code by (simp add: show_int_def show_nat.simps)
  have 2: "getAudioDuration ?pf (ProbeClose 0 ''garbage'') = Inl ''Could not parse audio duration''"
    using b garbage by blast
  have 3: "getAudioDuration ?pf (ProbeClose 0 ''9.2'') = Inr (46 / 5)"
    using c number by blast
  have 4: "endTime (captionLoop ?pf (\<lambda>i. ProbeClose 1 []) 0 0 ?segs ! 0)
       - startTime (captionLoop ?pf (\<lambda>i. ProbeClose 1 []) 0 0 ?segs ! 0) = 10"
    using a k 1 by simp
  have 5: "subtitleStep sampleEnv True ?segs freshWorld
       = (Resolved (Some [\<lparr>cap_text = ''Hello world'', startTime = 0, endTime = 46 / 5\<rparr>]), freshWorld)"
    using a timer
    by (simp add: subtitleData_def getAudioDuration_def sampleEnv_def trim_def isspace_def Let_def)
  show ?thesis by (intro conjI 1 2 3 4 5)
qed

text \<open>
  The claim as stated fails where ffprobe exits with code 1: the probe is rejected, yet
  the job completes and stores a caption that lasts the ten seconds planned in the script.
\<close>

theorem probe_failure_counterexample:
  "getAudioDuration (parse_float sampleEnv) (ProbeClose 1 []) = Inl ''ffprobe failed with code 1''
   \<and> fst (generateVideoContent (sampleEnv\<lparr>ffprobe_exit := (\<lambda>i. ProbeClose 1 [])\<rparr>) (Some sampleVideo)
            ''v1'' ''temp'' freshWorld) = Inr ()
   \<and> status (stored (snd (generateVideoContent (sampleEnv\<lparr>ffprobe_exit := (\<lambda>i. ProbeClose 1 [])\<rparr>)
            (Some sampleVideo) ''v1'' ''temp'' freshWorld))) = ''completed''
   \<and> r_subtitleData (stored (snd (generateVideoContent
            (sampleEnv\<lparr>ffprobe_exit := (\<lambda>i. ProbeClose 1 [])\<rparr>) (Some sampleVideo) ''v1'' ''temp''
            freshWorld)))
       = Some [\<lparr>cap_text = ''Hello world'', startTime = 0, endTime = 10\<rparr>]"
  by code_simp

end
